theory Spec2Isabelle
  imports Complex_Main
begin

section \<open>The video composition backend (backend/main.py)\<close>

text \<open>
  The program is one Python module. Its floats are modelled as IEEE doubles (every
  operation rounds to the nearest double, ties to even; infinities, NaN and the
  negative zero are values), its unbounded integers as \<open>int\<close>, its strings as
  \<open>string\<close> with one \<open>char\<close> per character (so characters above 255 are
  not represented). The Python builtins and the operating
  system the module calls (\<open>int\<close>, \<open>float\<close>, \<open>str\<close> of a float, \<open>json.loads\<close>,
  \<open>ffprobe\<close>, \<open>ffmpeg\<close>, \<open>Path.exists\<close>) are parameters of the model; everything
  the module itself computes is a definition below, named as in the source.
\<close>

subsection \<open>Characters and string helpers\<close>

abbreviation quote_chr :: char where
  "quote_chr \<equiv> CHR 0x27"

abbreviation backslash_chr :: char where
  "backslash_chr \<equiv> CHR 0x5C"

definition is_digit :: "char \<Rightarrow> bool" where
  "is_digit c = (c \<in> set ''0123456789'')"

definition digit_val :: "char \<Rightarrow> nat" where
  "digit_val c = of_char c - 48"

definition is_space :: "char \<Rightarrow> bool" where
  \<comment> \<open>the characters below 256 that \<open>str.strip()\<close> removes\<close>
  "is_space c = (c \<in> {CHR 0x09, CHR 0x0A, CHR 0x0B, CHR 0x0C, CHR 0x0D,
                        CHR 0x1C, CHR 0x1D, CHR 0x1E, CHR 0x1F, CHR 0x20,
                        CHR 0x85, CHR 0xA0})"

definition strip :: "string \<Rightarrow> string" where
  "strip s = rev (dropWhile is_space (rev (dropWhile is_space s)))"

definition is_space_bytes :: "char \<Rightarrow> bool" where
  \<comment> \<open>the bytes that \<open>bytes.strip()\<close> removes\<close>
  "is_space_bytes c = (c \<in> {CHR 0x09, CHR 0x0A, CHR 0x0B, CHR 0x0C, CHR 0x0D, CHR 0x20})"

definition strip_bytes :: "string \<Rightarrow> string" where
  "strip_bytes s = rev (dropWhile is_space_bytes (rev (dropWhile is_space_bytes s)))"

definition rstrip_chr :: "char \<Rightarrow> string \<Rightarrow> string" where
  \<comment> \<open>\<open>s.rstrip(c)\<close> for a one-character argument\<close>
  "rstrip_chr c s = rev (dropWhile (\<lambda>k. k = c) (rev s))"

definition replace_chr :: "char \<Rightarrow> string \<Rightarrow> string \<Rightarrow> string" where
  \<comment> \<open>\<open>s.replace(c, new)\<close> for a one-character pattern\<close>
  "replace_chr c new s = concat (map (\<lambda>k. if k = c then new else [k]) s)"

fun split_on :: "char \<Rightarrow> string \<Rightarrow> string list" where
  \<comment> \<open>\<open>s.split(c)\<close>: never empty, \<open>''''.split(c) = ['''']\<close>\<close>
  "split_on c [] = [[]]"
| "split_on c (k # ks) =
     (if k = c then [] # split_on c ks
      else (case split_on c ks of
              [] \<Rightarrow> [[k]]
            | p # ps \<Rightarrow> (k # p) # ps))"

definition digit_chr :: "nat \<Rightarrow> char" where
  "digit_chr d = char_of (48 + d)"

fun show_nat :: "nat \<Rightarrow> string" where
  "show_nat n = (if n < 10 then [digit_chr n] else show_nat (n div 10) @ [digit_chr (n mod 10)])"

declare show_nat.simps [simp del]

definition show_int :: "int \<Rightarrow> string" where
  \<comment> \<open>\<open>str(i)\<close> and \<open>f"{i}"\<close> of a Python integer\<close>
  "show_int i = (if i < 0 then CHR ''-'' # show_nat (nat (- i)) else show_nat (nat i))"

subsection \<open>Floats\<close>

datatype pyfloat = Fin real | NegZero | PInf | NInf | NaN

text \<open>
  \<open>Fin r\<close> is the finite double of value \<open>r\<close> (\<open>Fin 0\<close> is \<open>0.0\<close>), \<open>NegZero\<close> is
  \<open>-0.0\<close>, \<open>PInf\<close> and \<open>NInf\<close> are the infinities. The result of an operation is the
  exact result rounded to 53 significant bits (fewer below \<open>2^-1022\<close>), an infinity
  when the rounded value reaches \<open>2^1024\<close>.
\<close>

fun nbits :: "nat \<Rightarrow> nat" where
  \<comment> \<open>the length of a number in binary\<close>
  "nbits n = (if n = 0 then 0 else Suc (nbits (n div 2)))"

declare nbits.simps [simp del]

definition ilog2 :: "real \<Rightarrow> int" where
  \<comment> \<open>for \<open>x > 0\<close>: the \<open>e\<close> with \<open>2^e \<le> x < 2^(e+1)\<close>\<close>
  "ilog2 x = (if 1 \<le> x then int (nbits (nat \<lfloor>x\<rfloor>)) - 1
              else - int (nbits (nat (\<lceil>1 / x\<rceil> - 1))))"

definition pow2 :: "int \<Rightarrow> real" where
  "pow2 e = (if 0 \<le> e then 2 ^ nat e else 1 / 2 ^ nat (- e))"

definition round_half_even :: "real \<Rightarrow> int" where
  "round_half_even x =
     (let f = \<lfloor>x\<rfloor>; r = x - of_int f
      in if r < 1 / 2 then f else if 1 / 2 < r then f + 1 else if even f then f else f + 1)"

definition rd :: "real \<Rightarrow> real" where
  \<comment> \<open>the nearest double, with no bound on the exponent above\<close>
  "rd x = (if x = 0 then 0
           else (let u = pow2 (max (ilog2 \<bar>x\<bar>) (- 1022) - 52)
                 in of_int (round_half_even (x / u)) * u))"

fun is_zero :: "pyfloat \<Rightarrow> bool" where
  \<comment> \<open>\<open>f == 0\<close>, and \<open>not f\<close>\<close>
  "is_zero (Fin r) = (r = 0)"
| "is_zero NegZero = True"
| "is_zero PInf = False"
| "is_zero NInf = False"
| "is_zero NaN = False"

fun gt_zero :: "pyfloat \<Rightarrow> bool" where
  \<comment> \<open>\<open>f > 0\<close>\<close>
  "gt_zero (Fin r) = (0 < r)"
| "gt_zero NegZero = False"
| "gt_zero PInf = True"
| "gt_zero NInf = False"
| "gt_zero NaN = False"

fun is_finite :: "pyfloat \<Rightarrow> bool" where
  "is_finite (Fin r) = True"
| "is_finite NegZero = True"
| "is_finite PInf = False"
| "is_finite NInf = False"
| "is_finite NaN = False"

fun is_neg :: "pyfloat \<Rightarrow> bool" where
  \<comment> \<open>the sign bit (of no use on \<open>NaN\<close>)\<close>
  "is_neg (Fin r) = (r < 0)"
| "is_neg NegZero = True"
| "is_neg PInf = False"
| "is_neg NInf = True"
| "is_neg NaN = False"

fun fval :: "pyfloat \<Rightarrow> real" where
  \<comment> \<open>the value of a finite float\<close>
  "fval (Fin r) = r"
| "fval NegZero = 0"
| "fval PInf = 0"
| "fval NInf = 0"
| "fval NaN = 0"

definition signed_zero :: "bool \<Rightarrow> pyfloat" where
  "signed_zero neg = (if neg then NegZero else Fin 0)"

definition signed_inf :: "bool \<Rightarrow> pyfloat" where
  "signed_inf neg = (if neg then NInf else PInf)"

definition to_float :: "bool \<Rightarrow> real \<Rightarrow> pyfloat" where
  \<comment> \<open>the float for the exact result \<open>r\<close>; \<open>neg\<close> is the sign of an exact zero\<close>
  "to_float neg r =
     (let q = rd r; s = (if r = 0 then neg else r < 0)
      in if q = 0 then signed_zero s
         else if 2 ^ 1024 \<le> \<bar>q\<bar> then signed_inf s
         else Fin q)"

definition float_lit :: "real \<Rightarrow> pyfloat" where
  \<comment> \<open>the float a decimal literal of value \<open>r \<ge> 0\<close> denotes\<close>
  "float_lit r = to_float False r"

definition fmul :: "pyfloat \<Rightarrow> pyfloat \<Rightarrow> pyfloat" where
  "fmul a b =
     (if a = NaN \<or> b = NaN then NaN
      else if \<not> is_finite a \<or> \<not> is_finite b then
        (if is_zero a \<or> is_zero b then NaN else signed_inf (is_neg a \<noteq> is_neg b))
      else to_float (is_neg a \<noteq> is_neg b) (fval a * fval b))"

definition fdiv :: "pyfloat \<Rightarrow> pyfloat \<Rightarrow> string + pyfloat" where
  \<comment> \<open>\<open>a / b\<close>: Python raises on every zero divisor\<close>
  "fdiv a b =
     (if is_zero b then Inl ''float division by zero''
      else if a = NaN \<or> b = NaN then Inr NaN
      else if \<not> is_finite a then
        (if \<not> is_finite b then Inr NaN else Inr (signed_inf (is_neg a \<noteq> is_neg b)))
      else if \<not> is_finite b then Inr (signed_zero (is_neg a \<noteq> is_neg b))
      else Inr (to_float (is_neg a \<noteq> is_neg b) (fval a / fval b)))"

definition fadd :: "pyfloat \<Rightarrow> pyfloat \<Rightarrow> pyfloat" where
  "fadd a b =
     (if a = NaN \<or> b = NaN then NaN
      else if \<not> is_finite a then
        (if \<not> is_finite b \<and> is_neg a \<noteq> is_neg b then NaN else a)
      else if \<not> is_finite b then b
      else to_float (is_neg a \<and> is_neg b) (fval a + fval b))"

definition int_to_float :: "int \<Rightarrow> string + pyfloat" where
  \<comment> \<open>the conversion of an integer operand of a float operation\<close>
  "int_to_float n =
     (if 2 ^ 1024 \<le> \<bar>rd (of_int n)\<bar> then Inl ''int too large to convert to float''
      else Inr (Fin (rd (of_int n))))"

definition trunc :: "real \<Rightarrow> int" where
  "trunc r = (if 0 \<le> r then \<lfloor>r\<rfloor> else \<lceil>r\<rceil>)"

fun py_int :: "pyfloat \<Rightarrow> string + int" where
  \<comment> \<open>\<open>int(f)\<close>: truncation towards zero; \<open>Inl\<close> is the message of the exception\<close>
  "py_int (Fin r) = Inr (trunc r)"
| "py_int NegZero = Inr 0"
| "py_int PInf = Inl ''cannot convert float infinity to integer''"
| "py_int NInf = Inl ''cannot convert float infinity to integer''"
| "py_int NaN = Inl ''cannot convert float NaN to integer''"

definition and_then :: "string + 'a \<Rightarrow> ('a \<Rightarrow> string + 'b) \<Rightarrow> string + 'b" where
  \<comment> \<open>sequencing: an exception of the first step ends the computation\<close>
  "and_then r f = (case r of Inl m \<Rightarrow> Inl m | Inr v \<Rightarrow> f v)"

definition int_mul :: "pyfloat \<Rightarrow> int \<Rightarrow> string + int" where
  \<comment> \<open>\<open>int(f * n)\<close> for a float \<open>f\<close> and an integer \<open>n\<close>\<close>
  "int_mul f n = and_then (int_to_float n) (\<lambda>b. py_int (fmul f b))"

definition or_default :: "pyfloat option \<Rightarrow> pyfloat \<Rightarrow> pyfloat" where
  \<comment> \<open>\<open>v or d\<close> on an \<open>Optional[float]\<close>: \<open>None\<close> and the zeros are falsy\<close>
  "or_default v d = (case v of None \<Rightarrow> d | Some f \<Rightarrow> if is_zero f then d else f)"

subsection \<open>Builtins and the outside world\<close>

record py =
  int_str :: "string \<Rightarrow> string + int"
  float_str :: "string \<Rightarrow> pyfloat option"
  str_float :: "pyfloat \<Rightarrow> string"

text \<open>
  \<open>int_str\<close> is \<open>int(s)\<close> (\<open>Inl\<close> carries the message of the \<open>ValueError\<close>),
  \<open>float_str\<close> is \<open>float(s)\<close> (\<open>None\<close> when it raises), \<open>str_float\<close> is the text
  an f-string gives a float.
\<close>

datatype proc = PopenError string | Exited "string list" int

record world =
  probe_duration :: "string \<Rightarrow> string option"
  probe_dims :: "string \<Rightarrow> string + string"
  path_exists :: "string \<Rightarrow> bool"
  overlay_path :: "string \<Rightarrow> string"
  output_path :: "string \<Rightarrow> string"
  ffmpeg :: "string list \<Rightarrow> proc"

text \<open>
  \<open>probe_duration p\<close> is the output of the duration probe on the file \<open>p\<close> (\<open>None\<close> when
  \<open>check_output\<close> raises); \<open>probe_dims p\<close> the decoded output of the dimension probe
  (\<open>Inl\<close> the message of the exception it raises); \<open>overlay_path c\<close> is
  \<open>str(OVERLAY_DIR / c)\<close>, \<open>output_path j\<close> is \<open>str(OUTPUT_DIR / f"{j}.mp4")\<close>;
  \<open>ffmpeg cmd\<close> is what running the command gives: \<open>PopenError\<close> when the process
  cannot be started, else the lines of its diagnostic stream and its return code.
\<close>

subsection \<open>Models\<close>

record OverlayMetadata =
  ov_id :: "string option"
  ov_type :: string
  ov_content :: string
  ov_start_time :: pyfloat
  ov_end_time :: pyfloat
  ov_x :: pyfloat
  ov_y :: pyfloat
  ov_width :: "pyfloat option"
  ov_height :: "pyfloat option"

definition OverlayMetadata_init ::
  "string option option \<Rightarrow> string \<Rightarrow> string \<Rightarrow> pyfloat \<Rightarrow> pyfloat \<Rightarrow> pyfloat \<Rightarrow> pyfloat \<Rightarrow>
   pyfloat option option \<Rightarrow> pyfloat option option \<Rightarrow> OverlayMetadata" where
  \<comment> \<open>the constructor: an optional field that is not given (\<open>None\<close>) takes its declared
      default, a field given as null is \<open>Some None\<close>\<close>
  "OverlayMetadata_init i t c st en px qy w h =
     \<lparr> ov_id = (case i of None \<Rightarrow> None | Some v \<Rightarrow> v),
       ov_type = t, ov_content = c, ov_start_time = st, ov_end_time = en,
       ov_x = px, ov_y = qy,
       ov_width = (case w of None \<Rightarrow> Some (float_lit (2 / 10)) | Some v \<Rightarrow> v),
       ov_height = (case h of None \<Rightarrow> Some (float_lit (2 / 10)) | Some v \<Rightarrow> v) \<rparr>"

subsection \<open>The filter graph built by \<open>process_video_task\<close>\<close>

record graph =
  input_args :: "string list"
  filter_complex :: string
  last_stream_label :: string

definition safe_text :: "string \<Rightarrow> string" where
  "safe_text c =
     replace_chr CHR '':'' [backslash_chr, CHR '':'']
       (replace_chr quote_chr [quote_chr, backslash_chr, quote_chr, quote_chr] c)"

definition font_size :: "OverlayMetadata \<Rightarrow> int \<Rightarrow> string + int" where
  \<comment> \<open>\<open>max(16, int((ov.height or 0.05) * H))\<close>\<close>
  "font_size ov H =
     and_then (int_mul (or_default (ov_height ov) (float_lit (5 / 100))) H)
       (\<lambda>n. Inr (max 16 n))"

definition even_down :: "int \<Rightarrow> int" where
  \<comment> \<open>\<open>if t % 2 != 0: t -= 1\<close>\<close>
  "even_down t = (if t mod 2 \<noteq> 0 then t - 1 else t)"

definition target_w :: "OverlayMetadata \<Rightarrow> int \<Rightarrow> string + int" where
  "target_w ov W =
     and_then (int_mul (or_default (ov_width ov) (float_lit (2 / 10))) W)
       (\<lambda>n. Inr (even_down n))"

definition target_h :: "OverlayMetadata \<Rightarrow> int \<Rightarrow> string + int" where
  "target_h ov H =
     and_then (int_mul (or_default (ov_height ov) (float_lit (2 / 10))) H)
       (\<lambda>n. Inr (even_down n))"

definition enable_between :: "py \<Rightarrow> OverlayMetadata \<Rightarrow> string" where
  "enable_between p ov =
     ''enable='' @ [quote_chr] @ ''between(t,'' @ str_float p (ov_start_time ov) @ '','' @
     str_float p (ov_end_time ov) @ '')'' @ [quote_chr]"

definition overlay_step ::
  "py \<Rightarrow> world \<Rightarrow> int \<Rightarrow> int \<Rightarrow> nat \<Rightarrow> OverlayMetadata \<Rightarrow> graph \<Rightarrow> string + graph" where
  \<comment> \<open>one round of \<open>for i, ov in enumerate(overlays)\<close>; \<open>Inl\<close> is the message of the
      exception a conversion raises\<close>
  "overlay_step p w W H i ov g =
     and_then (int_mul (ov_x ov) W) (\<lambda>x_px.
     and_then (int_mul (ov_y ov) H) (\<lambda>y_px.
       if ov_type ov = ''text'' then
         and_then (font_size ov H) (\<lambda>fs.
           (let next_label = ''[v'' @ show_nat (i + 1) @ '']''
            in Inr (g \<lparr> filter_complex := filter_complex g @
                      last_stream_label g @ ''drawtext=text='' @ [quote_chr] @
                      safe_text (ov_content ov) @ [quote_chr] @ '':'' @
                      ''fontcolor=white:fontsize='' @ show_int fs @
                      '':x='' @ show_int x_px @ '':y='' @ show_int y_px @ '':'' @
                      enable_between p ov @ next_label @ '';'',
                    last_stream_label := next_label \<rparr>)))
       else if ov_type ov \<in> {''image'', ''video''} then
         (let ov_path = overlay_path w (ov_content ov)
          in if \<not> path_exists w ov_path then Inr g
             else
               and_then (target_w ov W) (\<lambda>tw.
               and_then (target_h ov H) (\<lambda>th.
                 (let args = input_args g @ [''-i'', ov_path];
                      input_index = int (length args) div 2 - 1;
                      scaled_label = ''[sc'' @ show_nat i @ '']'';
                      next_label = ''[v'' @ show_nat (i + 1) @ '']''
                  in Inr (g \<lparr> input_args := args,
                          filter_complex := filter_complex g @
                            ''['' @ show_int input_index @ '':v]scale='' @
                            show_int tw @ '':'' @ show_int th @
                            scaled_label @ '';'' @
                            last_stream_label g @ scaled_label @ ''overlay='' @
                            show_int x_px @ '':'' @ show_int y_px @ '':'' @
                            enable_between p ov @ next_label @ '';'',
                          last_stream_label := next_label \<rparr>)))))
       else Inr g))"

fun overlay_loop ::
  "py \<Rightarrow> world \<Rightarrow> int \<Rightarrow> int \<Rightarrow> nat \<Rightarrow> OverlayMetadata list \<Rightarrow> graph \<Rightarrow> string + graph" where
  "overlay_loop p w W H i [] g = Inr g"
| "overlay_loop p w W H i (ov # ovs) g =
     and_then (overlay_step p w W H i ov g) (overlay_loop p w W H (i + 1) ovs)"

definition build_filter ::
  "py \<Rightarrow> world \<Rightarrow> string \<Rightarrow> int \<Rightarrow> int \<Rightarrow> OverlayMetadata list \<Rightarrow> string + graph" where
  \<comment> \<open>step 2 of the task: the loop, then \<open>rstrip(';')\<close> and the \<open>null\<close> fallback\<close>
  "build_filter p w video_path W H overlays =
     and_then
       (overlay_loop p w W H 0 overlays
          \<lparr> input_args = [''-i'', video_path], filter_complex = [],
            last_stream_label = ''[0:v]'' \<rparr>)
       (\<lambda>g. (let fc = rstrip_chr CHR '';'' (filter_complex g)
             in Inr (g \<lparr> filter_complex := (if fc = [] then ''null'' else fc) \<rparr>)))"

subsection \<open>Probing the base video\<close>

definition get_video_duration :: "py \<Rightarrow> world \<Rightarrow> string \<Rightarrow> pyfloat" where
  \<comment> \<open>any exception of the probe or of \<open>float\<close> gives 0.0\<close>
  "get_video_duration p w input_path =
     (case probe_duration w input_path of
        None \<Rightarrow> Fin 0
      | Some out \<Rightarrow> (case float_str p (strip_bytes out) of None \<Rightarrow> Fin 0 | Some d \<Rightarrow> d))"

fun unpack_dims :: "py \<Rightarrow> string list \<Rightarrow> string + int \<times> int" where
  \<comment> \<open>\<open>W, H = map(int, parts)\<close>: the parts are converted one by one as the unpacking
      asks for them, a third one too before the count is found wrong\<close>
  "unpack_dims p [] = Inl ''not enough values to unpack (expected 2, got 0)''"
| "unpack_dims p [a] =
     (case int_str p a of
        Inl m \<Rightarrow> Inl m
      | Inr _ \<Rightarrow> Inl ''not enough values to unpack (expected 2, got 1)'')"
| "unpack_dims p (a # b # rest) =
     (case int_str p a of
        Inl m \<Rightarrow> Inl m
      | Inr W \<Rightarrow>
         (case int_str p b of
            Inl m \<Rightarrow> Inl m
          | Inr H \<Rightarrow>
             (case rest of
                [] \<Rightarrow> Inr (W, H)
              | c # _ \<Rightarrow>
                 (case int_str p c of
                    Inl m \<Rightarrow> Inl m
                  | Inr _ \<Rightarrow> Inl ''too many values to unpack (expected 2)''))))"

definition probe_info :: "py \<Rightarrow> world \<Rightarrow> string \<Rightarrow> string + pyfloat \<times> int \<times> int" where
  \<comment> \<open>step 1 of the task; \<open>Inl\<close> is \<open>str(e)\<close> of the exception that ends the task\<close>
  "probe_info p w video_path =
     (let total_duration = get_video_duration p w video_path
      in if is_zero total_duration then
           Inl ''Could not determine video duration. Is the file corrupted?''
         else
           (case probe_dims w video_path of
              Inl m \<Rightarrow> Inl m
            | Inr raw \<Rightarrow>
               (let probe_out = strip raw
                in if probe_out = [] then Inl ''Could not determine video dimensions.''
                   else (case unpack_dims p (split_on CHR ''x'' probe_out) of
                           Inl m \<Rightarrow> Inl m
                         | Inr (W, H) \<Rightarrow> Inr (total_duration, W, H)))))"

subsection \<open>Progress extraction\<close>

fun is_time_marker :: "string \<Rightarrow> bool" where
  \<comment> \<open>the group \<open>\d{2}:\d{2}:\d{2}\.\d{2}\<close>\<close>
  "is_time_marker [h1, h2, c1, m1, m2, c2, s1, s2, c3, f1, f2] =
     (is_digit h1 \<and> is_digit h2 \<and> c1 = CHR '':'' \<and> is_digit m1 \<and> is_digit m2 \<and>
      c2 = CHR '':'' \<and> is_digit s1 \<and> is_digit s2 \<and> c3 = CHR ''.'' \<and>
      is_digit f1 \<and> is_digit f2)"
| "is_time_marker _ = False"

fun time_search :: "string \<Rightarrow> string option" where
  \<comment> \<open>\<open>time_pattern.search(line)\<close>, giving \<open>match.group(1)\<close> of the leftmost match\<close>
  "time_search [] = None"
| "time_search (c # cs) =
     (if take 5 (c # cs) = ''time='' \<and> is_time_marker (take 11 (drop 5 (c # cs)))
      then Some (take 11 (drop 5 (c # cs)))
      else time_search cs)"

definition time_str_to_sec :: "py \<Rightarrow> string \<Rightarrow> pyfloat" where
  \<comment> \<open>\<open>int(h) * 3600 + int(m) * 60 + float(s)\<close>: the integer sum is converted to a
      float and added; the bare \<open>except\<close> turns every failure into 0.0\<close>
  "time_str_to_sec p time_str =
     (case split_on CHR '':'' time_str of
        [h, m, s] \<Rightarrow>
          (case int_str p h of
             Inl _ \<Rightarrow> Fin 0
           | Inr hv \<Rightarrow>
              (case int_str p m of
                 Inl _ \<Rightarrow> Fin 0
               | Inr mv \<Rightarrow>
                  (case float_str p s of
                     None \<Rightarrow> Fin 0
                   | Some sv \<Rightarrow>
                      (case int_to_float (hv * 3600 + mv * 60) of
                         Inl _ \<Rightarrow> Fin 0
                       | Inr a \<Rightarrow> fadd a sv))))
      | _ \<Rightarrow> Fin 0)"

definition percent_of :: "pyfloat \<Rightarrow> pyfloat \<Rightarrow> string + int" where
  \<comment> \<open>\<open>int((current_sec / total_duration) * 100)\<close>\<close>
  "percent_of current_sec total_duration =
     and_then (fdiv current_sec total_duration) (\<lambda>q. py_int (fmul q (Fin 100)))"

definition line_progress :: "py \<Rightarrow> pyfloat \<Rightarrow> string \<Rightarrow> string + int option" where
  \<comment> \<open>the body of \<open>for line in process.stderr\<close>: the progress it saves, if any, or the
      message of the exception it raises\<close>
  "line_progress p total_duration line =
     (case time_search line of
        None \<Rightarrow> Inr None
      | Some grp \<Rightarrow>
         (let current_sec = time_str_to_sec p grp
          in if gt_zero total_duration
             then and_then (percent_of current_sec total_duration)
                    (\<lambda>percent. Inr (Some (min percent 99)))
             else Inr None))"

subsection \<open>The supervised task\<close>

datatype event =
    Save string string int "string option"
  | Popen "string list"

text \<open>
  \<open>Save job_id status progress error\<close> is one call of \<open>save_job_status\<close> (the snapshot
  it writes also carries the time of the write, which no property below reads);
  \<open>Popen cmd\<close> is the launch of the transcoding engine. The value of the task is the
  list of these events in the order they happen.
\<close>

definition ffmpeg_cmd :: "world \<Rightarrow> string \<Rightarrow> graph \<Rightarrow> string list" where
  "ffmpeg_cmd w job_id g =
     [''ffmpeg'', ''-y''] @ input_args g @
     [''-filter_complex'', filter_complex g,
      ''-map'', last_stream_label g,
      ''-map'', ''0:a?'',
      ''-c:v'', ''libx264'',
      ''-preset'', ''ultrafast'',
      ''-c:a'', ''aac'',
      output_path w job_id]"

fun progress_loop ::
  "py \<Rightarrow> string \<Rightarrow> pyfloat \<Rightarrow> string list \<Rightarrow> event list \<times> string option" where
  \<comment> \<open>\<open>for line in process.stderr\<close>: the saves made, and the message of the exception
      that ended the loop, if one did\<close>
  "progress_loop p job_id total_duration [] = ([], None)"
| "progress_loop p job_id total_duration (line # rest) =
     (case line_progress p total_duration line of
        Inl msg \<Rightarrow> ([], Some msg)
      | Inr None \<Rightarrow> progress_loop p job_id total_duration rest
      | Inr (Some pc) \<Rightarrow>
         (case progress_loop p job_id total_duration rest of
            (evs, e) \<Rightarrow> (Save job_id ''processing'' pc None # evs, e)))"

definition failed :: "string \<Rightarrow> string \<Rightarrow> event" where
  \<comment> \<open>the handler \<open>except Exception as e\<close>\<close>
  "failed job_id msg = Save job_id ''failed'' 0 (Some msg)"

definition process_video_task ::
  "py \<Rightarrow> world \<Rightarrow> string \<Rightarrow> string \<Rightarrow> OverlayMetadata list \<Rightarrow> event list" where
  "process_video_task p w job_id video_path overlays =
     (case probe_info p w video_path of
        Inl msg \<Rightarrow> [failed job_id msg]
      | Inr (total_duration, W, H) \<Rightarrow>
         Save job_id ''processing'' 0 None #
         (case build_filter p w video_path W H overlays of
            Inl msg \<Rightarrow> [failed job_id msg]
          | Inr g \<Rightarrow>
             Popen (ffmpeg_cmd w job_id g) #
             (case ffmpeg w (ffmpeg_cmd w job_id g) of
                PopenError msg \<Rightarrow> [failed job_id msg]
              | Exited stderr_lines returncode \<Rightarrow>
                 (case progress_loop p job_id total_duration stderr_lines of
                    (evs, Some msg) \<Rightarrow> evs @ [failed job_id msg]
                  | (evs, None) \<Rightarrow>
                     evs @
                     (if returncode = 0 then [Save job_id ''completed'' 100 None]
                      else [failed job_id ''FFmpeg process failed''])))))"

subsection \<open>The job store and the read path\<close>

datatype json =
    JNull | JBool bool | JNum real | JStr string
  | JArr "json list" | JObj "(string \<times> json) list"

fun truthy :: "json \<Rightarrow> bool" where
  \<comment> \<open>Python's truth value of a decoded document\<close>
  "truthy JNull = False"
| "truthy (JBool b) = b"
| "truthy (JNum r) = (r \<noteq> 0)"
| "truthy (JStr s) = (s \<noteq> [])"
| "truthy (JArr xs) = (xs \<noteq> [])"
| "truthy (JObj kvs) = (kvs \<noteq> [])"

type_synonym jobs_dir = "(string \<times> string) list"

text \<open>
  The directory \<open>JOBS_DIR\<close> is the list of its files, name and content. \<open>json.loads\<close>
  is a parameter \<open>loads\<close>, \<open>None\<close> when it raises \<open>JSONDecodeError\<close>.
\<close>

definition load_job_status ::
  "(string \<Rightarrow> json option) \<Rightarrow> jobs_dir \<Rightarrow> string \<Rightarrow> json option" where
  "load_job_status loads jobs job_id =
     (case map_of jobs (job_id @ ''.json'') of
        None \<Rightarrow> None
      | Some raw \<Rightarrow>
         (let content = strip raw
          in if content = [] then None else loads content))"

datatype http_error = HTTPException nat string | JSONDecodeError

definition get_status ::
  "(string \<Rightarrow> json option) \<Rightarrow> jobs_dir \<Rightarrow> string \<Rightarrow> http_error + json" where
  "get_status loads jobs job_id =
     (case load_job_status loads jobs job_id of
        None \<Rightarrow> Inl (HTTPException 404 ''Job not found'')
      | Some status \<Rightarrow>
         if \<not> truthy status then Inl (HTTPException 404 ''Job not found'')
         else Inr status)"

definition is_json_file :: "string \<Rightarrow> bool" where
  \<comment> \<open>the pattern \<open>*.json\<close>\<close>
  "is_json_file name = (length name \<ge> 5 \<and> drop (length name - 5) name = ''.json'')"

fun load_all :: "(string \<Rightarrow> json option) \<Rightarrow> string list \<Rightarrow> http_error + json list" where
  \<comment> \<open>the loop of \<open>list_jobs\<close>: \<open>json.load\<close> with no handler around it\<close>
  "load_all loads [] = Inr []"
| "load_all loads (raw # rest) =
     (case loads raw of
        None \<Rightarrow> Inl JSONDecodeError
      | Some j \<Rightarrow>
         (case load_all loads rest of
            Inl e \<Rightarrow> Inl e
          | Inr js \<Rightarrow> Inr (j # js)))"

definition list_jobs ::
  "(string \<Rightarrow> json option) \<Rightarrow> jobs_dir \<Rightarrow> http_error + nat \<times> json list" where
  "list_jobs loads jobs =
     (case load_all loads (map snd (filter (\<lambda>f. is_json_file (fst f)) jobs)) of
        Inl e \<Rightarrow> Inl e
      | Inr jobs_list \<Rightarrow> Inr (length jobs_list, jobs_list))"

subsection \<open>A concrete instance of the builtins\<close>

text \<open>
  For evaluating the model on concrete inputs: \<open>int\<close> on an optional sign and ASCII
  digits, \<open>float\<close> on digits, a point and digits (the nearest double, as Python
  gives), and \<open>str\<close> of a float on the floats with a short exact decimal expansion
  that the examples print (0.0, 1.0, 3.0, 5.0). On these inputs Python's builtins give
  the same values.
\<close>

definition digits_val :: "string \<Rightarrow> nat" where
  "digits_val ds = foldl (\<lambda>acc c. 10 * acc + digit_val c) 0 ds"

definition invalid_literal :: "string \<Rightarrow> string" where
  "invalid_literal s = ''invalid literal for int() with base 10: '' @ [quote_chr] @ s @ [quote_chr]"

definition ascii_int :: "string \<Rightarrow> string + int" where
  "ascii_int s =
     (case s of
        [] \<Rightarrow> Inl (invalid_literal s)
      | c # cs \<Rightarrow>
         if (c = CHR ''-'' \<or> c = CHR ''+'') \<and> cs \<noteq> [] \<and> list_all is_digit cs
         then Inr (if c = CHR ''-'' then - int (digits_val cs) else int (digits_val cs))
         else if list_all is_digit s then Inr (int (digits_val s))
         else Inl (invalid_literal s))"

definition ascii_float :: "string \<Rightarrow> pyfloat option" where
  "ascii_float s =
     (let ip = takeWhile is_digit s; rest = dropWhile is_digit s
      in if ip \<noteq> [] \<and> rest = [] then Some (float_lit (real (digits_val ip)))
         else (case rest of
                 c # fp \<Rightarrow>
                   if c = CHR ''.'' \<and> ip \<noteq> [] \<and> fp \<noteq> [] \<and> list_all is_digit fp
                   then Some (float_lit
                                (real (digits_val ip) + real (digits_val fp) / 10 ^ length fp))
                   else None
               | [] \<Rightarrow> None))"

fun frac_digits :: "nat \<Rightarrow> real \<Rightarrow> string" where
  "frac_digits 0 r = []"
| "frac_digits (Suc n) r =
     (if r = 0 then []
      else digit_chr (nat \<lfloor>r * 10\<rfloor>) # frac_digits n (r * 10 - of_int \<lfloor>r * 10\<rfloor>))"

fun decimal_str :: "pyfloat \<Rightarrow> string" where
  "decimal_str (Fin r) =
     (let a = \<bar>r\<bar>; fp = a - of_int \<lfloor>a\<rfloor>
      in (if r < 0 then ''-'' else []) @ show_nat (nat \<lfloor>a\<rfloor>) @ ''.'' @
         (if fp = 0 then ''0'' else frac_digits 17 fp))"
| "decimal_str NegZero = ''-0.0''"
| "decimal_str PInf = ''inf''"
| "decimal_str NInf = ''-inf''"
| "decimal_str NaN = ''nan''"

declare decimal_str.simps [simp del]

definition ascii_py :: py where
  "ascii_py = \<lparr> int_str = ascii_int, float_str = ascii_float, str_float = decimal_str \<rparr>"

definition example_world :: "(string \<Rightarrow> bool) \<Rightarrow> proc \<Rightarrow> world" where
  \<comment> \<open>a 100 second, 1920x1080 base video; which files exist and what the engine does
      are left to the caller\<close>
  "example_world ex pr =
     \<lparr> probe_duration = (\<lambda>_. Some ''100.000000''),
       probe_dims = (\<lambda>_. Inr ''1920x1080''),
       path_exists = ex,
       overlay_path = (\<lambda>c. ''uploads/overlays/'' @ c),
       output_path = (\<lambda>j. ''outputs/'' @ j @ ''.mp4''),
       ffmpeg = (\<lambda>_. pr) \<rparr>"

subsection \<open>Notions the properties are stated with\<close>

definition two_digits :: "char \<Rightarrow> char \<Rightarrow> nat" where
  "two_digits a b = 10 * digit_val a + digit_val b"

fun marker_seconds :: "string \<Rightarrow> pyfloat" where
  \<comment> \<open>\<open>h*3600 + m*60 + s\<close> of a marker \<open>HH:MM:SS.ff\<close> as the floats give it: the
      seconds field is the nearest double of \<open>SS.ff\<close>, the sum is rounded again\<close>
  "marker_seconds [h1, h2, c1, m1, m2, c2, s1, s2, c3, f1, f2] =
     fadd (Fin (real (two_digits h1 h2 * 3600 + two_digits m1 m2 * 60)))
          (float_lit (real (two_digits s1 s2) + real (two_digits f1 f2) / 100))"
| "marker_seconds _ = Fin 0"

fun marker_exact :: "string \<Rightarrow> real" where
  \<comment> \<open>\<open>h*3600 + m*60 + s\<close> of a marker in exact arithmetic\<close>
  "marker_exact [h1, h2, c1, m1, m2, c2, s1, s2, c3, f1, f2] =
     real (two_digits h1 h2) * 3600 + real (two_digits m1 m2) * 60 +
     (real (two_digits s1 s2) + real (two_digits f1 f2) / 100)"
| "marker_exact _ = 0"

definition reads_marker :: "py \<Rightarrow> bool" where
  \<comment> \<open>what \<open>int\<close> and \<open>float\<close> give on the fields of a marker\<close>
  "reads_marker p =
     ((\<forall>a b. is_digit a \<and> is_digit b \<longrightarrow> int_str p [a, b] = Inr (int (two_digits a b))) \<and>
      (\<forall>a b c d. is_digit a \<and> is_digit b \<and> is_digit c \<and> is_digit d \<longrightarrow>
         float_str p [a, b, CHR ''.'', c, d] =
           Some (float_lit (real (two_digits a b) + real (two_digits c d) / 100))))"

definition marker_at :: "string \<Rightarrow> nat \<Rightarrow> string \<Rightarrow> bool" where
  \<comment> \<open>at position \<open>k\<close> the line reads \<open>time=\<close> and then the marker \<open>g\<close>\<close>
  "marker_at line k g =
     (take 5 (drop k line) = ''time='' \<and> take 11 (drop (k + 5) line) = g \<and> is_time_marker g)"

definition malformed :: "py \<Rightarrow> string \<Rightarrow> bool" where
  \<comment> \<open>a time string that does not have exactly two colons, or has a field a builtin
      refuses\<close>
  "malformed p time_str =
     (count_list time_str CHR '':'' \<noteq> 2 \<or>
      isl (int_str p (split_on CHR '':'' time_str ! 0)) \<or>
      isl (int_str p (split_on CHR '':'' time_str ! 1)) \<or>
      float_str p (split_on CHR '':'' time_str ! 2) = None)"

fun is_save :: "event \<Rightarrow> bool" where
  "is_save (Save _ _ _ _) = True"
| "is_save (Popen _) = False"

fun is_progress_write :: "string \<Rightarrow> event \<Rightarrow> bool" where
  "is_progress_write j (Save job_id status progress err) =
     (job_id = j \<and> status = ''processing'' \<and> progress \<le> 99)"
| "is_progress_write j (Popen _) = False"

fun is_terminal_write :: "string \<Rightarrow> event \<Rightarrow> bool" where
  "is_terminal_write j (Save job_id status progress err) =
     (job_id = j \<and> (status = ''completed'' \<and> progress = 100 \<or> status = ''failed''))"
| "is_terminal_write j (Popen _) = False"

definition saves :: "event list \<Rightarrow> event list" where
  "saves tr = filter is_save tr"

fun is_popen :: "event \<Rightarrow> bool" where
  "is_popen (Popen _) = True"
| "is_popen (Save _ _ _ _) = False"

fun bare_colons :: "string \<Rightarrow> nat" where
  \<comment> \<open>the colons of a text that no backslash escapes, reading from the left with a
      backslash taking the character after it\<close>
  "bare_colons [] = 0"
| "bare_colons [c] = (if c = CHR '':'' then 1 else 0)"
| "bare_colons (c # d # cs) =
     (if c = backslash_chr then bare_colons cs
      else (if c = CHR '':'' then 1 else 0) + bare_colons (d # cs))"

section \<open>Properties\<close>

subsection \<open>Evaluation lemmas\<close>

lemma and_then_simps [simp]:
  "and_then (Inl m) f = Inl m" "and_then (Inr v) f = f v"
  by (simp_all add: and_then_def)

lemmas float_eval =
  int_mul_def int_to_float_def rd_def ilog2_def pow2_def round_half_even_def nbits.simps
  fmul_def fdiv_def fadd_def to_float_def trunc_def float_lit_def signed_zero_def
  signed_inf_def percent_of_def Let_def

lemma show_vals:
  "show_int 216 = ''216''" "show_int 960 = ''960''" "show_int 540 = ''540''"
  "show_int 54 = ''54''" "show_int 638 = ''638''" "show_int 0 = ''0''" "show_int 1 = ''1''"
  "show_int 640 = ''640''" "show_int 360 = ''360''"
  "show_nat 0 = ''0''" "show_nat 1 = ''1''" "show_nat (Suc 0) = ''1''" "show_nat 2 = ''2''"
  "show_nat (Suc (Suc 0)) = ''2''" "show_nat 3 = ''3''" "show_nat 5 = ''5''"
  by code_simp+

lemma decimal_vals:
  "decimal_str (Fin 0) = ''0.0''" "decimal_str (Fin 1) = ''1.0''" "decimal_str (Fin 3) = ''3.0''"
  "decimal_str (Fin 5) = ''5.0''"
  by (simp_all add: decimal_str.simps show_vals)

lemma rstrip_label: "rstrip_chr CHR '';'' (s @ '']'' @ '';'') = s @ '']''"
  by (simp add: rstrip_chr_def)

lemma safe_text_Nil: "safe_text [] = []"
  by (simp add: safe_text_def replace_chr_def)

lemma safe_text_Cons:
  "safe_text (c # cs) =
     (if c = quote_chr then [quote_chr, backslash_chr, quote_chr, quote_chr]
      else if c = CHR '':'' then [backslash_chr, CHR '':'']
      else [c]) @ safe_text cs"
  by (simp add: safe_text_def replace_chr_def)

lemma safe_text_Hi: "safe_text ''Hi'' = ''Hi''"
  by (simp add: safe_text_Cons safe_text_Nil)

lemma int_mul_vals:
  "int_mul (Fin (1/2)) 1920 = Inr 960" "int_mul (Fin (1/2)) 1080 = Inr 540"
  "int_mul (float_lit (1/5)) 1080 = Inr 216" "int_mul (float_lit (1/20)) 1080 = Inr 54"
  "int_mul (float_lit (1/5)) 1920 = Inr 384"
  "int_mul (Fin 0) 1920 = Inr 0" "int_mul (Fin 0) 1080 = Inr 0"
  "int_mul (float_lit (333/1000)) 1920 = Inr 639"
  "int_mul (float_lit (3333333333333333 / 10^16)) 1920 = Inr 640"
  "int_mul (float_lit (3333333333333333 / 10^16)) 1080 = Inr 360"
  by (simp_all add: float_eval)

lemma lit_nonzero: "\<not> is_zero (float_lit (1/5))" "\<not> is_zero (float_lit (1/20))"
  "\<not> is_zero (float_lit (333/1000))" "\<not> is_zero (float_lit (3333333333333333 / 10^16))"
  "\<not> is_zero (Fin (1/2))"
  by (simp_all add: float_eval)

subsection \<open>The branches of one round of the overlay loop\<close>

lemma overlay_step_text:
  assumes "ov_type ov = ''text''" "int_mul (ov_x ov) W = Inr x_px" "int_mul (ov_y ov) H = Inr y_px"
    "font_size ov H = Inr fs"
  shows "overlay_step p w W H i ov g =
     Inr (g \<lparr> filter_complex := filter_complex g @
            last_stream_label g @ ''drawtext=text='' @ [quote_chr] @
            safe_text (ov_content ov) @ [quote_chr] @ '':'' @
            ''fontcolor=white:fontsize='' @ show_int fs @
            '':x='' @ show_int x_px @ '':y='' @ show_int y_px @ '':'' @
            enable_between p ov @ (''[v'' @ show_nat (i + 1) @ '']'') @ '';'',
          last_stream_label := ''[v'' @ show_nat (i + 1) @ '']'' \<rparr>)"
  using assms by (simp add: overlay_step_def Let_def)

lemma overlay_step_asset:
  assumes "ov_type ov \<in> {''image'', ''video''}" "path_exists w (overlay_path w (ov_content ov))"
    "int_mul (ov_x ov) W = Inr x_px" "int_mul (ov_y ov) H = Inr y_px"
    "target_w ov W = Inr tw" "target_h ov H = Inr th"
  shows "overlay_step p w W H i ov g =
     Inr (g \<lparr> input_args := input_args g @ [''-i'', overlay_path w (ov_content ov)],
          filter_complex := filter_complex g @
            ''['' @ show_int (int (length (input_args g @
                                [''-i'', overlay_path w (ov_content ov)])) div 2 - 1) @
            '':v]scale='' @ show_int tw @ '':'' @ show_int th @
            (''[sc'' @ show_nat i @ '']'') @ '';'' @
            last_stream_label g @ (''[sc'' @ show_nat i @ '']'') @ ''overlay='' @
            show_int x_px @ '':'' @ show_int y_px @ '':'' @
            enable_between p ov @ (''[v'' @ show_nat (i + 1) @ '']'') @ '';'',
          last_stream_label := ''[v'' @ show_nat (i + 1) @ '']'' \<rparr>)"
  using assms by (auto simp: overlay_step_def Let_def)


subsection \<open>C1: the text overlay example\<close>

lemma hi_fields:
  "ov_type (OverlayMetadata_init i ''text'' ''Hi'' (Fin 1) (Fin 3) (Fin (1/2)) (Fin (1/2)) wd h) = ''text''"
  "ov_content (OverlayMetadata_init i ''text'' ''Hi'' (Fin 1) (Fin 3) (Fin (1/2)) (Fin (1/2)) wd h) = ''Hi''"
  "ov_x (OverlayMetadata_init i ''text'' ''Hi'' (Fin 1) (Fin 3) (Fin (1/2)) (Fin (1/2)) wd h) = Fin (1/2)"
  "ov_y (OverlayMetadata_init i ''text'' ''Hi'' (Fin 1) (Fin 3) (Fin (1/2)) (Fin (1/2)) wd h) = Fin (1/2)"
  "ov_start_time (OverlayMetadata_init i ''text'' ''Hi'' (Fin 1) (Fin 3) (Fin (1/2)) (Fin (1/2)) wd h) = Fin 1"
  "ov_end_time (OverlayMetadata_init i ''text'' ''Hi'' (Fin 1) (Fin 3) (Fin (1/2)) (Fin (1/2)) wd h) = Fin 3"
  by (simp_all add: OverlayMetadata_init_def)

lemma hi_font:
  "font_size (OverlayMetadata_init i ''text'' ''Hi'' (Fin 1) (Fin 3) (Fin (1/2)) (Fin (1/2)) wd None) 1080 = Inr 216"
  "font_size (OverlayMetadata_init i ''text'' ''Hi'' (Fin 1) (Fin 3) (Fin (1/2)) (Fin (1/2)) wd (Some None)) 1080 = Inr 54"
  "font_size (OverlayMetadata_init i ''text'' ''Hi'' (Fin 1) (Fin 3) (Fin (1/2)) (Fin (1/2)) wd (Some (Some (Fin 0)))) 1080 = Inr 54"
  by (simp_all add: font_size_def OverlayMetadata_init_def or_default_def int_mul_vals lit_nonzero)

lemma hi_stage:
  assumes "font_size (OverlayMetadata_init None ''text'' ''Hi'' (Fin 1) (Fin 3) (Fin (1/2)) (Fin (1/2)) None h) 1080 = Inr fs"
  shows "build_filter p w v 1920 1080
           [OverlayMetadata_init None ''text'' ''Hi'' (Fin 1) (Fin 3) (Fin (1/2)) (Fin (1/2)) None h] =
    Inr \<lparr> input_args = [''-i'', v],
          filter_complex =
            ''[0:v]drawtext=text='' @ [quote_chr] @ ''Hi'' @ [quote_chr] @
            '':fontcolor=white:fontsize='' @ show_int fs @ '':x=960:y=540:enable='' @ [quote_chr] @
            ''between(t,'' @ str_float p (Fin 1) @ '','' @ str_float p (Fin 3) @ '')'' @
            [quote_chr] @ ''[v1]'',
          last_stream_label = ''[v1]'' \<rparr>"
proof -
  let ?ov = "OverlayMetadata_init None ''text'' ''Hi'' (Fin 1) (Fin 3) (Fin (1/2)) (Fin (1/2)) None h"
  let ?g0 = "\<lparr> input_args = [''-i'', v], filter_complex = [], last_stream_label = ''[0:v]'' \<rparr>"
  have x: "int_mul (ov_x ?ov) 1920 = Inr 960" and y: "int_mul (ov_y ?ov) 1080 = Inr 540"
    by (simp_all add: hi_fields int_mul_vals)
  have "overlay_step p w 1920 1080 0 ?ov ?g0 =
     Inr \<lparr> input_args = [''-i'', v],
          filter_complex =
           (''[0:v]drawtext=text='' @ [quote_chr] @ ''Hi'' @ [quote_chr] @
            '':fontcolor=white:fontsize='' @ show_int fs @ '':x=960:y=540:enable='' @ [quote_chr] @
            ''between(t,'' @ str_float p (Fin 1) @ '','' @ str_float p (Fin 3) @ '')'' @
            [quote_chr] @ ''[v1'') @ '']'' @ '';'',
          last_stream_label = ''[v1]'' \<rparr>"
    by (simp add: overlay_step_text[OF hi_fields(1) x y assms] hi_fields show_vals safe_text_Hi
        enable_between_def)
  then show ?thesis
    by (simp only: build_filter_def overlay_loop.simps and_then_simps Let_def graph.simps
        rstrip_label) simp
qed

text \<open>
  C1, as the code has it. The overlay \<open>{kind: text, content: "Hi", start_time: 1,
  end_time: 3, x: 0.5, y: 0.5}\<close> on a 1920 by 1080 frame compiles to one draw-text stage
  at x=960, y=540, gated by \<open>between(t, 1, 3)\<close>, on the base input alone. Its font
  size is 216 when no height is given, because the model's declared default height 0.2
  applies (0.2 * 1080); the fallback 0.05 (54 pixels) is used when the height is given
  as null or as 0.
\<close>

theorem C1_text_overlay_example:
  "build_filter p w v 1920 1080
      [OverlayMetadata_init None ''text'' ''Hi'' (Fin 1) (Fin 3) (Fin (1/2)) (Fin (1/2)) None None] =
    Inr \<lparr> input_args = [''-i'', v],
          filter_complex =
            ''[0:v]drawtext=text='' @ [quote_chr] @ ''Hi'' @ [quote_chr] @
            '':fontcolor=white:fontsize=216:x=960:y=540:enable='' @ [quote_chr] @
            ''between(t,'' @ str_float p (Fin 1) @ '','' @ str_float p (Fin 3) @ '')'' @
            [quote_chr] @ ''[v1]'',
          last_stream_label = ''[v1]'' \<rparr> \<and>
   build_filter p w v 1920 1080
      [OverlayMetadata_init None ''text'' ''Hi'' (Fin 1) (Fin 3) (Fin (1/2)) (Fin (1/2)) None (Some None)] =
    Inr \<lparr> input_args = [''-i'', v],
          filter_complex =
            ''[0:v]drawtext=text='' @ [quote_chr] @ ''Hi'' @ [quote_chr] @
            '':fontcolor=white:fontsize=54:x=960:y=540:enable='' @ [quote_chr] @
            ''between(t,'' @ str_float p (Fin 1) @ '','' @ str_float p (Fin 3) @ '')'' @
            [quote_chr] @ ''[v1]'',
          last_stream_label = ''[v1]'' \<rparr> \<and>
   build_filter p w v 1920 1080
      [OverlayMetadata_init None ''text'' ''Hi'' (Fin 1) (Fin 3) (Fin (1/2)) (Fin (1/2)) None
         (Some (Some (Fin 0)))] =
    Inr \<lparr> input_args = [''-i'', v],
          filter_complex =
            ''[0:v]drawtext=text='' @ [quote_chr] @ ''Hi'' @ [quote_chr] @
            '':fontcolor=white:fontsize=54:x=960:y=540:enable='' @ [quote_chr] @
            ''between(t,'' @ str_float p (Fin 1) @ '','' @ str_float p (Fin 3) @ '')'' @
            [quote_chr] @ ''[v1]'',
          last_stream_label = ''[v1]'' \<rparr>"
  using hi_stage[OF hi_font(1), of p w v] hi_stage[OF hi_font(2), of p w v]
    hi_stage[OF hi_font(3), of p w v]
  by (simp add: show_vals)

text \<open>C1 at the concrete builtins: the gate reads \<open>between(t,1.0,3.0)\<close>.\<close>

theorem C1_text_overlay_example_witness:
  "build_filter ascii_py (example_world (\<lambda>_. True) (Exited [] 0)) ''base.mp4'' 1920 1080
      [OverlayMetadata_init None ''text'' ''Hi'' (Fin 1) (Fin 3) (Fin (1/2)) (Fin (1/2)) None None] =
    Inr \<lparr> input_args = [''-i'', ''base.mp4''],
          filter_complex =
            ''[0:v]drawtext=text='' @ [quote_chr] @ ''Hi'' @ [quote_chr] @
            '':fontcolor=white:fontsize=216:x=960:y=540:enable='' @ [quote_chr] @
            ''between(t,1.0,3.0)'' @ [quote_chr] @ ''[v1]'',
          last_stream_label = ''[v1]'' \<rparr>"
  using C1_text_overlay_example[of ascii_py "example_world (\<lambda>_. True) (Exited [] 0)"
      "''base.mp4''"]
  by (simp add: ascii_py_def decimal_vals)

text \<open>
  C1 as stated fails: with no height given the font size is 216, not the 54 that the
  fractional height 0.05 gives.
\<close>

theorem C1_default_height_counterexample:
  "font_size (OverlayMetadata_init None ''text'' ''Hi'' (Fin 1) (Fin 3) (Fin (1/2)) (Fin (1/2)) None None)
     1080 = Inr 216 \<and>
   and_then (int_mul (float_lit (5 / 100)) 1080) (\<lambda>n. Inr (max 16 n)) = Inr 54 \<and>
   \<not> font_size (OverlayMetadata_init None ''text'' ''Hi'' (Fin 1) (Fin 3) (Fin (1/2)) (Fin (1/2)) None None)
       1080 = and_then (int_mul (float_lit (5 / 100)) 1080) (\<lambda>n. Inr (max 16 n))"
  by (simp add: hi_font int_mul_vals)

subsection \<open>The example base video\<close>

lemma float_lit_100: "float_lit 100 = Fin 100"
  by (simp add: float_eval)

lemma example_duration: "get_video_duration ascii_py (example_world ex pr) v = Fin 100"
proof -
  have "ascii_float ''100.000000'' = Some (float_lit 100)"
    by (simp add: ascii_float_def is_digit_def digits_val_def digit_val_def)
  then show ?thesis
    by (simp add: get_video_duration_def example_world_def strip_bytes_def is_space_bytes_def
        ascii_py_def float_lit_100)
qed

lemma example_probe: "probe_info ascii_py (example_world ex pr) v = Inr (Fin 100, 1920, 1080)"
proof -
  have s: "strip ''1920x1080'' = ''1920x1080''"
    by (simp add: strip_def is_space_def)
  have u: "int_str ascii_py ''1920'' = Inr 1920" "int_str ascii_py ''1080'' = Inr 1080"
    by (simp_all add: ascii_py_def ascii_int_def is_digit_def digits_val_def digit_val_def)
  have pd: "probe_dims (example_world ex pr) v = Inr ''1920x1080''"
    by (simp add: example_world_def)
  show ?thesis
    by (simp add: probe_info_def example_duration pd s u)
qed

subsection \<open>C3: a failed probe\<close>

lemma task_probe_failed:
  "probe_info p w v = Inl msg \<Longrightarrow>
   process_video_task p w j v ovs = [Save j ''failed'' 0 (Some msg)]"
  by (simp add: process_video_task_def failed_def)

text \<open>
  C3. When the probe of the base video fails, the task does one thing: it records the
  job as failed, with the message of the failure. This covers a duration of 0 (reported,
  or the result of a probe or a conversion that raised), a dimension probe that raises,
  an empty dimension output, and a dimension output that does not unpack to two
  integers. In every such run the engine is not launched.
\<close>

theorem C3_probe_failure:
  "(is_zero (get_video_duration p w v) \<longrightarrow>
      process_video_task p w j v ovs =
        [Save j ''failed'' 0
           (Some ''Could not determine video duration. Is the file corrupted?'')]) \<and>
   (\<not> is_zero (get_video_duration p w v) \<and> probe_dims w v = Inl m \<longrightarrow>
      process_video_task p w j v ovs = [Save j ''failed'' 0 (Some m)]) \<and>
   (\<not> is_zero (get_video_duration p w v) \<and> probe_dims w v = Inr raw \<and> strip raw = [] \<longrightarrow>
      process_video_task p w j v ovs =
        [Save j ''failed'' 0 (Some ''Could not determine video dimensions.'')]) \<and>
   (\<not> is_zero (get_video_duration p w v) \<and> probe_dims w v = Inr raw \<and> strip raw \<noteq> [] \<and>
    unpack_dims p (split_on CHR ''x'' (strip raw)) = Inl m \<longrightarrow>
      process_video_task p w j v ovs = [Save j ''failed'' 0 (Some m)]) \<and>
   (probe_info p w v = Inl m \<longrightarrow> filter is_popen (process_video_task p w j v ovs) = [])"
proof (intro conjI impI)
  assume "is_zero (get_video_duration p w v)"
  then have "probe_info p w v =
      Inl ''Could not determine video duration. Is the file corrupted?''"
    by (simp add: probe_info_def)
  then show "process_video_task p w j v ovs =
        [Save j ''failed'' 0
           (Some ''Could not determine video duration. Is the file corrupted?'')]"
    by (rule task_probe_failed)
next
  assume "\<not> is_zero (get_video_duration p w v) \<and> probe_dims w v = Inl m"
  then have "probe_info p w v = Inl m"
    by (simp add: probe_info_def)
  then show "process_video_task p w j v ovs = [Save j ''failed'' 0 (Some m)]"
    by (rule task_probe_failed)
next
  assume "\<not> is_zero (get_video_duration p w v) \<and> probe_dims w v = Inr raw \<and> strip raw = []"
  then have "probe_info p w v = Inl ''Could not determine video dimensions.''"
    by (simp add: probe_info_def)
  then show "process_video_task p w j v ovs =
        [Save j ''failed'' 0 (Some ''Could not determine video dimensions.'')]"
    by (rule task_probe_failed)
next
  assume "\<not> is_zero (get_video_duration p w v) \<and> probe_dims w v = Inr raw \<and> strip raw \<noteq> [] \<and>
    unpack_dims p (split_on CHR ''x'' (strip raw)) = Inl m"
  then have "probe_info p w v = Inl m"
    by (simp add: probe_info_def)
  then show "process_video_task p w j v ovs = [Save j ''failed'' 0 (Some m)]"
    by (rule task_probe_failed)
next
  assume "probe_info p w v = Inl m"
  then show "filter is_popen (process_video_task p w j v ovs) = []"
    by (simp add: task_probe_failed)
qed

text \<open>
  C3 on four base videos: a duration reported as \<open>0.0\<close>, a dimension probe that exits
  with an error, a dimension output that is one newline, and the dimension output
  \<open>N/AxN/A\<close>.
\<close>

theorem C3_probe_failure_witness:
  "process_video_task ascii_py
      ((example_world (\<lambda>_. True) (Exited [] 0)) \<lparr> probe_duration := (\<lambda>_. Some ''0.0'') \<rparr>)
      ''job1'' ''v.mp4'' [] =
     [Save ''job1'' ''failed'' 0
        (Some ''Could not determine video duration. Is the file corrupted?'')] \<and>
   process_video_task ascii_py
      ((example_world (\<lambda>_. True) (Exited [] 0))
         \<lparr> probe_dims := (\<lambda>_. Inl ''Command returned non-zero exit status 1.'') \<rparr>)
      ''job1'' ''v.mp4'' [] =
     [Save ''job1'' ''failed'' 0 (Some ''Command returned non-zero exit status 1.'')] \<and>
   process_video_task ascii_py
      ((example_world (\<lambda>_. True) (Exited [] 0)) \<lparr> probe_dims := (\<lambda>_. Inr [CHR 0x0A]) \<rparr>)
      ''job1'' ''v.mp4'' [] =
     [Save ''job1'' ''failed'' 0 (Some ''Could not determine video dimensions.'')] \<and>
   process_video_task ascii_py
      ((example_world (\<lambda>_. True) (Exited [] 0)) \<lparr> probe_dims := (\<lambda>_. Inr ''N/AxN/A'') \<rparr>)
      ''job1'' ''v.mp4'' [] =
     [Save ''job1'' ''failed'' 0 (Some (invalid_literal ''N/A''))] \<and>
   filter is_popen (process_video_task ascii_py
      ((example_world (\<lambda>_. True) (Exited [] 0)) \<lparr> probe_duration := (\<lambda>_. Some ''0.0'') \<rparr>)
      ''job1'' ''v.mp4'' []) = []"
proof -
  let ?w0 = "example_world (\<lambda>_. True) (Exited [] 0)"
  have f0: "ascii_float ''0.0'' = Some (Fin 0)"
    by (simp add: ascii_float_def is_digit_def digits_val_def digit_val_def float_lit_def
        to_float_def rd_def signed_zero_def)
  have d0: "is_zero (get_video_duration ascii_py (?w0 \<lparr> probe_duration := (\<lambda>_. Some ''0.0'') \<rparr>)
      ''v.mp4'')"
    by (simp add: get_video_duration_def example_world_def strip_bytes_def is_space_bytes_def
        ascii_py_def f0)
  have "get_video_duration ascii_py (?w0 \<lparr> probe_dims := f \<rparr>) ''v.mp4'' =
        get_video_duration ascii_py ?w0 ''v.mp4''" for f
    by (simp add: get_video_duration_def)
  then have d1: "\<not> is_zero (get_video_duration ascii_py (?w0 \<lparr> probe_dims := f \<rparr>) ''v.mp4'')" for f
    by (simp add: example_duration)
  have s1: "strip [CHR 0x0A] = []"
    by (simp add: strip_def is_space_def)
  have s2: "strip ''N/AxN/A'' = ''N/AxN/A''"
    by (simp add: strip_def is_space_def)
  have sp: "split_on CHR ''x'' ''N/AxN/A'' = [''N/A'', ''N/A'']"
    by simp
  have u: "unpack_dims ascii_py (split_on CHR ''x'' ''N/AxN/A'') = Inl (invalid_literal ''N/A'')"
    unfolding sp by (simp add: ascii_py_def ascii_int_def is_digit_def)
  have pi: "probe_info ascii_py (?w0 \<lparr> probe_duration := (\<lambda>_. Some ''0.0'') \<rparr>) ''v.mp4'' =
      Inl ''Could not determine video duration. Is the file corrupted?''"
    using d0 by (simp add: probe_info_def)
  show ?thesis
    using C3_probe_failure[of ascii_py "?w0 \<lparr> probe_duration := (\<lambda>_. Some ''0.0'') \<rparr>"
        "''v.mp4''" "''job1''" "[]"
        "''Could not determine video duration. Is the file corrupted?''"]
      C3_probe_failure[of ascii_py
        "?w0 \<lparr> probe_dims := (\<lambda>_. Inl ''Command returned non-zero exit status 1.'') \<rparr>"
        "''v.mp4''" "''job1''" "[]" "''Command returned non-zero exit status 1.''"]
      C3_probe_failure[of ascii_py "?w0 \<lparr> probe_dims := (\<lambda>_. Inr [CHR 0x0A]) \<rparr>"
        "''v.mp4''" "''job1''" "[]" _ "[CHR 0x0A]"]
      C3_probe_failure[of ascii_py "?w0 \<lparr> probe_dims := (\<lambda>_. Inr ''N/AxN/A'') \<rparr>"
        "''v.mp4''" "''job1''" "[]" "invalid_literal ''N/A''" "''N/AxN/A''"]
      d0 d1 s1 s2 u pi
    by simp
qed

subsection \<open>C4: polling an unreadable snapshot\<close>

text \<open>
  C4. A snapshot file that is empty once stripped, or that the decoder refuses (a file
  cut short while it is written), loads as \<open>None\<close>, exactly as a job with no file does,
  and the status request answers it with the same 404 "Job not found"; no decoding error
  reaches the caller.
\<close>

theorem C4_unreadable_snapshot:
  "map_of jobs (job_id @ ''.json'') = Some raw \<and> (strip raw = [] \<or> loads (strip raw) = None) \<and>
   map_of jobs' (job_id @ ''.json'') = None \<longrightarrow>
     load_job_status loads jobs job_id = None \<and>
     load_job_status loads jobs job_id = load_job_status loads jobs' job_id \<and>
     get_status loads jobs job_id = Inl (HTTPException 404 ''Job not found'') \<and>
     get_status loads jobs job_id = get_status loads jobs' job_id \<and>
     get_status loads jobs job_id \<noteq> Inl JSONDecodeError"
  by (auto simp: load_job_status_def get_status_def Let_def)

text \<open>
  C4 on a directory with a snapshot cut after its first character and an empty one,
  against the empty directory; the decoder here accepts the document \<open>null\<close> only.
\<close>

theorem C4_unreadable_snapshot_witness:
  "get_status (\<lambda>s. if s = ''null'' then Some JNull else None)
      [(''job1.json'', ''{''), (''job2.json'', [])] ''job1'' =
     Inl (HTTPException 404 ''Job not found'') \<and>
   get_status (\<lambda>s. if s = ''null'' then Some JNull else None)
      [(''job1.json'', ''{''), (''job2.json'', [])] ''job2'' =
     Inl (HTTPException 404 ''Job not found'') \<and>
   get_status (\<lambda>s. if s = ''null'' then Some JNull else None) [] ''job1'' =
     Inl (HTTPException 404 ''Job not found'')"
  using C4_unreadable_snapshot[of "[(''job1.json'', ''{''), (''job2.json'', [])]"
      "''job1''" "''{''" "(\<lambda>s. if s = ''null'' then Some JNull else None)" "[]"]
    C4_unreadable_snapshot[of "[(''job1.json'', ''{''), (''job2.json'', [])]"
      "''job2''" "[]" "(\<lambda>s. if s = ''null'' then Some JNull else None)" "[]"]
  by (simp add: strip_def is_space_def get_status_def load_job_status_def)

subsection \<open>C5: listing with an unreadable snapshot\<close>

lemma load_all_unreadable:
  "raw \<in> set raws \<Longrightarrow> loads raw = None \<Longrightarrow> load_all loads raws = Inl JSONDecodeError"
proof (induction raws)
  case Nil
  then show ?case by simp
next
  case (Cons a raws)
  show ?case
  proof (cases "loads a")
    case None
    then show ?thesis by simp
  next
    case (Some j)
    with Cons have "load_all loads raws = Inl JSONDecodeError" by auto
    with Some show ?thesis by simp
  qed
qed

lemma load_all_readable:
  "list_all (\<lambda>raw. loads raw \<noteq> None) raws \<Longrightarrow>
   load_all loads raws = Inr (map (\<lambda>raw. the (loads raw)) raws)"
  by (induction raws) auto

text \<open>
  C5 does not hold of the listing: \<open>list_jobs\<close> decodes every \<open>*.json\<close> file with no
  handler, so one snapshot the decoder refuses (an empty file, a file cut short) makes
  the whole listing raise \<open>JSONDecodeError\<close>, where \<open>load_job_status\<close> on the same
  directory answers \<open>None\<close>.
\<close>

theorem C5_list_jobs_raises:
  "(name, raw) \<in> set jobs \<and> is_json_file name \<and> loads raw = None \<longrightarrow>
     list_jobs loads jobs = Inl JSONDecodeError"
proof
  assume a: "(name, raw) \<in> set jobs \<and> is_json_file name \<and> loads raw = None"
  then have "raw \<in> set (map snd (filter (\<lambda>f. is_json_file (fst f)) jobs))"
    by force
  moreover have "loads raw = None"
    using a by simp
  ultimately have
    "load_all loads (map snd (filter (\<lambda>f. is_json_file (fst f)) jobs)) = Inl JSONDecodeError"
    by (rule load_all_unreadable)
  then show "list_jobs loads jobs = Inl JSONDecodeError"
    by (simp add: list_jobs_def)
qed

text \<open>
  C5 at a directory with one readable snapshot and one empty file: the listing raises,
  the loader of the empty one gives \<open>None\<close>.
\<close>

theorem C5_list_jobs_raises_witness:
  "list_jobs (\<lambda>s. if s = ''null'' then Some JNull else None)
     [(''job1.json'', ''null''), (''job2.json'', [])] = Inl JSONDecodeError \<and>
   load_job_status (\<lambda>s. if s = ''null'' then Some JNull else None)
     [(''job1.json'', ''null''), (''job2.json'', [])] ''job2'' = None"
  using C5_list_jobs_raises[of "''job2.json''" "[]"
      "[(''job1.json'', ''null''), (''job2.json'', [])]"
      "\<lambda>s. if s = ''null'' then Some JNull else None"]
  by (simp add: is_json_file_def load_job_status_def strip_def)

subsection \<open>C6 and C10: the order of the writes of one run\<close>

lemma progress_loop_all:
  "list_all (is_progress_write j) (fst (progress_loop p j d ls))"
proof (induction ls)
  case Nil
  then show ?case by simp
next
  case (Cons l ls)
  show ?case
  proof (cases "line_progress p d l")
    case (Inl m)
    then show ?thesis by simp
  next
    case (Inr r)
    show ?thesis
    proof (cases r)
      case None
      with Inr Cons show ?thesis by simp
    next
      case (Some pc)
      with Inr have "pc \<le> 99"
        by (auto simp: line_progress_def Let_def and_then_def
            split: option.splits if_splits sum.splits)
      with Inr Some Cons show ?thesis
        by (cases "progress_loop p j d ls") simp
    qed
  qed
qed

lemma progress_loop_saves:
  "filter is_save (fst (progress_loop p j d ls)) = fst (progress_loop p j d ls)"
  by (induction ls) (auto split: sum.splits option.splits prod.splits)

lemma progress_loop_status:
  "Save j' st pr err \<in> set (fst (progress_loop p j d ls)) \<Longrightarrow> st = ''processing''"
  by (induction ls) (auto split: sum.splits option.splits prod.splits)

lemma progress_not_terminal: "is_progress_write j e \<Longrightarrow> \<not> is_terminal_write j e"
  by (cases e) auto

lemma filter_terminal_progress:
  "list_all (is_progress_write j) es \<Longrightarrow> filter (is_terminal_write j) es = []"
  by (induction es) (auto dest: progress_not_terminal)

lemma task_shape:
  "\<exists>pre t. saves (process_video_task p w j v ovs) = pre @ [t] \<and>
     list_all (is_progress_write j) pre \<and> is_terminal_write j t \<and>
     last (process_video_task p w j v ovs) = t"
proof (cases "probe_info p w v")
  case (Inl msg)
  then have "saves (process_video_task p w j v ovs) = [] @ [failed j msg]"
    "last (process_video_task p w j v ovs) = failed j msg"
    by (simp_all add: process_video_task_def saves_def failed_def)
  moreover have "is_terminal_write j (failed j msg)"
    by (simp add: failed_def)
  moreover have "list_all (is_progress_write j) []"
    by simp
  ultimately show ?thesis by blast
next
  case (Inr r)
  obtain d W H where r: "r = (d, W, H)"
    by (cases r) auto
  have p0: "list_all (is_progress_write j) [Save j ''processing'' 0 None]"
    by simp
  show ?thesis
  proof (cases "build_filter p w v W H ovs")
    case (Inl msg)
    with Inr r have
      "saves (process_video_task p w j v ovs) = [Save j ''processing'' 0 None] @ [failed j msg]"
      "last (process_video_task p w j v ovs) = failed j msg"
      by (simp_all add: process_video_task_def saves_def failed_def)
    moreover have "is_terminal_write j (failed j msg)"
      by (simp add: failed_def)
    ultimately show ?thesis using p0 by blast
  next
    case g: (Inr g)
    show ?thesis
    proof (cases "ffmpeg w (ffmpeg_cmd w j g)")
      case (PopenError msg)
      with Inr r g have
        "saves (process_video_task p w j v ovs) = [Save j ''processing'' 0 None] @ [failed j msg]"
        "last (process_video_task p w j v ovs) = failed j msg"
        by (simp_all add: process_video_task_def saves_def failed_def)
      moreover have "is_terminal_write j (failed j msg)"
        by (simp add: failed_def)
      ultimately show ?thesis using p0 by blast
    next
      case (Exited ls rc)
      obtain evs e where pl: "progress_loop p j d ls = (evs, e)"
        by (cases "progress_loop p j d ls") auto
      have evs: "list_all (is_progress_write j) evs" "filter is_save evs = evs"
        using progress_loop_all[of j p d ls] progress_loop_saves[of p j d ls] pl by simp_all
      let ?t = "case e of Some msg \<Rightarrow> failed j msg
                | None \<Rightarrow> if rc = 0 then Save j ''completed'' 100 None
                          else failed j ''FFmpeg process failed''"
      from Inr r g Exited pl evs
      have "saves (process_video_task p w j v ovs) =
              (Save j ''processing'' 0 None # evs) @ [?t]"
        "last (process_video_task p w j v ovs) = ?t"
        by (auto simp: process_video_task_def saves_def failed_def split: option.splits)
      moreover have "is_terminal_write j ?t"
        by (simp add: failed_def split: option.splits)
      moreover have "list_all (is_progress_write j) (Save j ''processing'' 0 None # evs)"
        using evs by simp
      ultimately show ?thesis by blast
    qed
  qed
qed

text \<open>
  C6. The snapshot writes of one run of the task (a run whose engine process ends) are
  a list of progress writes, each with status processing and progress at most 99, then
  one terminal write, completed with progress 100 or failed. The terminal write is the
  only one of the run and it is the last event of the run: nothing is written after it.
\<close>

theorem C6_progress_before_terminal:
  "saves (process_video_task p w j v ovs) \<noteq> [] \<and>
   list_all (is_progress_write j) (butlast (saves (process_video_task p w j v ovs))) \<and>
   is_terminal_write j (last (saves (process_video_task p w j v ovs))) \<and>
   length (filter (is_terminal_write j) (saves (process_video_task p w j v ovs))) = 1 \<and>
   last (process_video_task p w j v ovs) = last (saves (process_video_task p w j v ovs))"
proof -
  obtain pre t where s: "saves (process_video_task p w j v ovs) = pre @ [t]"
    and pre: "list_all (is_progress_write j) pre" and t: "is_terminal_write j t"
    and l: "last (process_video_task p w j v ovs) = t"
    using task_shape by blast
  show ?thesis
    using pre t l by (simp add: s filter_terminal_progress)
qed

subsection \<open>The example run\<close>

lemma marker_vals:
  "time_search ''frame= 10 time=00:00:50.00 bitrate=1'' = Some ''00:00:50.00''"
  "time_search ''no marker here'' = None"
  "time_search ''time=00:01:40.00'' = Some ''00:01:40.00''"
  "time_search ''time=00:00:29.00'' = Some ''00:00:29.00''"
  by (simp_all add: is_digit_def)

lemma ascii_fields:
  "ascii_int ''00'' = Inr 0" "ascii_int ''01'' = Inr 1"
  "ascii_float ''50.00'' = Some (Fin 50)" "ascii_float ''40.00'' = Some (Fin 40)"
  "ascii_float ''29.00'' = Some (Fin 29)"
  by (simp_all add: ascii_int_def ascii_float_def is_digit_def digits_val_def digit_val_def
      float_eval)

lemma time_vals:
  "time_str_to_sec ascii_py ''00:00:50.00'' = Fin 50"
  "time_str_to_sec ascii_py ''00:01:40.00'' = Fin 100"
  "time_str_to_sec ascii_py ''00:00:29.00'' = Fin 29"
  by (simp_all add: time_str_to_sec_def ascii_py_def ascii_fields float_eval)

lemma percent_vals:
  "percent_of (Fin 50) (Fin 100) = Inr 50" "percent_of (Fin 100) (Fin 100) = Inr 100"
  "percent_of (Fin 29) (Fin 100) = Inr 28"
  by (simp_all add: float_eval)

lemma example_lines:
  "line_progress ascii_py (Fin 100) ''frame= 10 time=00:00:50.00 bitrate=1'' = Inr (Some 50)"
  "line_progress ascii_py (Fin 100) ''no marker here'' = Inr None"
  "line_progress ascii_py (Fin 100) ''time=00:01:40.00'' = Inr (Some 99)"
  "line_progress ascii_py (Fin 100) ''time=00:00:29.00'' = Inr (Some 28)"
  by (simp_all add: line_progress_def is_digit_def time_vals percent_vals)

lemma example_progress:
  "progress_loop ascii_py ''job1'' (Fin 100)
     [''frame= 10 time=00:00:50.00 bitrate=1'', ''no marker here'', ''time=00:01:40.00''] =
   ([Save ''job1'' ''processing'' 50 None, Save ''job1'' ''processing'' 99 None], None)"
  by (simp add: example_lines)

lemma example_task:
  "process_video_task ascii_py
     (example_world ex (Exited [''frame= 10 time=00:00:50.00 bitrate=1'', ''no marker here'',
                                ''time=00:01:40.00''] rc)) ''job1'' ''v.mp4'' [] =
     [Save ''job1'' ''processing'' 0 None,
      Popen [''ffmpeg'', ''-y'', ''-i'', ''v.mp4'', ''-filter_complex'', ''null'',
             ''-map'', ''[0:v]'', ''-map'', ''0:a?'', ''-c:v'', ''libx264'',
             ''-preset'', ''ultrafast'', ''-c:a'', ''aac'', ''outputs/job1.mp4''],
      Save ''job1'' ''processing'' 50 None,
      Save ''job1'' ''processing'' 99 None,
      (if rc = 0 then Save ''job1'' ''completed'' 100 None
       else Save ''job1'' ''failed'' 0 (Some ''FFmpeg process failed''))]"
proof -
  have f: "ffmpeg (example_world ex pr) c = pr" "output_path (example_world ex pr) j = ''outputs/'' @ j @ ''.mp4''" for pr c j
    by (simp_all add: example_world_def)
  have b: "build_filter ascii_py w ''v.mp4'' 1920 1080 [] =
      Inr \<lparr> input_args = [''-i'', ''v.mp4''], filter_complex = ''null'', last_stream_label = ''[0:v]'' \<rparr>" for w
    by (simp add: build_filter_def rstrip_chr_def)
  show ?thesis
    by (simp add: process_video_task_def example_probe b f ffmpeg_cmd_def example_lines
        failed_def)
qed

text \<open>C6 on a run that reports 50, then 99, and exits with code 0.\<close>

theorem C6_progress_before_terminal_witness:
  "saves (process_video_task ascii_py
     (example_world (\<lambda>_. True)
        (Exited [''frame= 10 time=00:00:50.00 bitrate=1'', ''no marker here'',
                 ''time=00:01:40.00''] 0)) ''job1'' ''v.mp4'' []) =
     [Save ''job1'' ''processing'' 0 None, Save ''job1'' ''processing'' 50 None,
      Save ''job1'' ''processing'' 99 None, Save ''job1'' ''completed'' 100 None] \<and>
   length (filter (is_terminal_write ''job1'')
     (saves (process_video_task ascii_py
        (example_world (\<lambda>_. True)
           (Exited [''frame= 10 time=00:00:50.00 bitrate=1'', ''no marker here'',
                    ''time=00:01:40.00''] 0)) ''job1'' ''v.mp4'' []))) = 1"
  using C6_progress_before_terminal[of ascii_py
      "example_world (\<lambda>_. True)
         (Exited [''frame= 10 time=00:00:50.00 bitrate=1'', ''no marker here'',
                  ''time=00:01:40.00''] 0)" "''job1''" "''v.mp4''" "[]"]
  by (simp add: example_task saves_def)

text \<open>
  C10. Every failed snapshot the task writes carries progress 0, whatever progress was
  saved before, and it is the last event of the run on every path that fails: a failed
  probe, a conversion that raises while the graph is built, an engine that cannot be
  started, a conversion that raises while progress is read, and an engine that exits
  with a code other than 0.
\<close>

theorem C10_failed_progress_zero:
  "(Save j' ''failed'' pr err \<in> set (process_video_task p w j v ovs) \<longrightarrow> pr = 0) \<and>
   (probe_info p w v = Inl msg \<longrightarrow>
      last (process_video_task p w j v ovs) = Save j ''failed'' 0 (Some msg)) \<and>
   (probe_info p w v = Inr (d, W, H) \<and> build_filter p w v W H ovs = Inl msg \<longrightarrow>
      last (process_video_task p w j v ovs) = Save j ''failed'' 0 (Some msg)) \<and>
   (probe_info p w v = Inr (d, W, H) \<and> build_filter p w v W H ovs = Inr g \<and>
    ffmpeg w (ffmpeg_cmd w j g) = PopenError msg \<longrightarrow>
      last (process_video_task p w j v ovs) = Save j ''failed'' 0 (Some msg)) \<and>
   (probe_info p w v = Inr (d, W, H) \<and> build_filter p w v W H ovs = Inr g \<and>
    ffmpeg w (ffmpeg_cmd w j g) = Exited ls rc \<and>
    snd (progress_loop p j d ls) = Some msg \<longrightarrow>
      last (process_video_task p w j v ovs) = Save j ''failed'' 0 (Some msg)) \<and>
   (probe_info p w v = Inr (d, W, H) \<and> build_filter p w v W H ovs = Inr g \<and>
    ffmpeg w (ffmpeg_cmd w j g) = Exited ls rc \<and>
    snd (progress_loop p j d ls) = None \<and> rc \<noteq> 0 \<longrightarrow>
      last (process_video_task p w j v ovs) =
        Save j ''failed'' 0 (Some ''FFmpeg process failed''))"
proof (intro conjI impI)
  assume a: "Save j' ''failed'' pr err \<in> set (process_video_task p w j v ovs)"
  show "pr = 0"
  proof (cases "probe_info p w v")
    case (Inl m)
    with a show ?thesis
      by (simp add: process_video_task_def failed_def)
  next
    case (Inr r)
    obtain d W H where r: "r = (d, W, H)"
      by (cases r) auto
    show ?thesis
    proof (cases "build_filter p w v W H ovs")
      case (Inl m)
      with a Inr r show ?thesis
        by (simp add: process_video_task_def failed_def)
    next
      case g: (Inr g)
      show ?thesis
      proof (cases "ffmpeg w (ffmpeg_cmd w j g)")
        case (PopenError m)
        with a Inr r g show ?thesis
          by (simp add: process_video_task_def failed_def)
      next
        case (Exited ls rc)
        obtain evs e where pl: "progress_loop p j d ls = (evs, e)"
          by (cases "progress_loop p j d ls") auto
        have "st = ''processing''" if "Save j' st pr err \<in> set evs" for st
          using progress_loop_status[of j' st pr err p j d ls] that pl by simp
        with a Inr r g Exited pl show ?thesis
          by (auto simp: process_video_task_def failed_def split: option.splits if_splits)
      qed
    qed
  qed
next
  assume "probe_info p w v = Inl msg"
  then show "last (process_video_task p w j v ovs) = Save j ''failed'' 0 (Some msg)"
    by (simp add: process_video_task_def failed_def)
next
  assume "probe_info p w v = Inr (d, W, H) \<and> build_filter p w v W H ovs = Inl msg"
  then show "last (process_video_task p w j v ovs) = Save j ''failed'' 0 (Some msg)"
    by (simp add: process_video_task_def failed_def)
next
  assume "probe_info p w v = Inr (d, W, H) \<and> build_filter p w v W H ovs = Inr g \<and>
    ffmpeg w (ffmpeg_cmd w j g) = PopenError msg"
  then show "last (process_video_task p w j v ovs) = Save j ''failed'' 0 (Some msg)"
    by (simp add: process_video_task_def failed_def)
next
  assume "probe_info p w v = Inr (d, W, H) \<and> build_filter p w v W H ovs = Inr g \<and>
    ffmpeg w (ffmpeg_cmd w j g) = Exited ls rc \<and> snd (progress_loop p j d ls) = Some msg"
  then show "last (process_video_task p w j v ovs) = Save j ''failed'' 0 (Some msg)"
    by (cases "progress_loop p j d ls") (simp add: process_video_task_def failed_def)
next
  assume "probe_info p w v = Inr (d, W, H) \<and> build_filter p w v W H ovs = Inr g \<and>
    ffmpeg w (ffmpeg_cmd w j g) = Exited ls rc \<and> snd (progress_loop p j d ls) = None \<and> rc \<noteq> 0"
  then show "last (process_video_task p w j v ovs) =
      Save j ''failed'' 0 (Some ''FFmpeg process failed'')"
    by (cases "progress_loop p j d ls") (simp add: process_video_task_def failed_def)
qed

text \<open>C10 on a run that reports 50, then 99, and exits with code 1: the progress drops to 0.\<close>

theorem C10_failed_progress_zero_witness:
  "saves (process_video_task ascii_py
     (example_world (\<lambda>_. True)
        (Exited [''frame= 10 time=00:00:50.00 bitrate=1'', ''no marker here'',
                 ''time=00:01:40.00''] 1)) ''job1'' ''v.mp4'' []) =
     [Save ''job1'' ''processing'' 0 None, Save ''job1'' ''processing'' 50 None,
      Save ''job1'' ''processing'' 99 None,
      Save ''job1'' ''failed'' 0 (Some ''FFmpeg process failed'')] \<and>
   last (process_video_task ascii_py
     (example_world (\<lambda>_. True)
        (Exited [''frame= 10 time=00:00:50.00 bitrate=1'', ''no marker here'',
                 ''time=00:01:40.00''] 1)) ''job1'' ''v.mp4'' []) =
     Save ''job1'' ''failed'' 0 (Some ''FFmpeg process failed'')"
  using C10_failed_progress_zero[of "''job1''" 0 "Some ''FFmpeg process failed''" ascii_py
      "example_world (\<lambda>_. True)
         (Exited [''frame= 10 time=00:00:50.00 bitrate=1'', ''no marker here'',
                  ''time=00:01:40.00''] 1)"
      "''job1''" "''v.mp4''" "[]"]
  by (simp add: example_task saves_def)

subsection \<open>C7: the size of a scaled overlay\<close>

lemma even_down_props: "even (even_down t) \<and> even_down t \<le> t \<and> t - 1 \<le> even_down t"
  by (auto simp: even_down_def)

lemma or_default_given: "\<not> is_zero r \<Longrightarrow> or_default (Some r) d = r"
  by (simp add: or_default_def)

lemma target_w_Inr:
  "target_w ov W = Inr tw \<Longrightarrow>
   \<exists>q. int_mul (or_default (ov_width ov) (float_lit (2 / 10))) W = Inr q \<and> tw = even_down q"
  by (auto simp: target_w_def and_then_def split: sum.splits)

lemma target_h_Inr:
  "target_h ov H = Inr th \<Longrightarrow>
   \<exists>q. int_mul (or_default (ov_height ov) (float_lit (2 / 10))) H = Inr q \<and> th = even_down q"
  by (auto simp: target_h_def and_then_def split: sum.splits)

lemma overlay_step_asset_Inr:
  assumes "ov_type ov \<in> {''image'', ''video''}" "path_exists w (overlay_path w (ov_content ov))"
    "overlay_step p w W H i ov g = Inr g'"
  shows "\<exists>x_px y_px tw th. int_mul (ov_x ov) W = Inr x_px \<and> int_mul (ov_y ov) H = Inr y_px \<and>
            target_w ov W = Inr tw \<and> target_h ov H = Inr th"
  using assms by (auto simp: overlay_step_def Let_def and_then_def split: sum.splits if_splits)

text \<open>
  C7, as the code has it. The width and height given to the scale stage of an image or
  clip overlay are even, and each is the value \<open>int(f * W)\<close> or that value less 1,
  where the product is the double the code computes and \<open>f\<close> is the fraction the code
  uses: the overlay's width or height when it is given and not 0, the fallback 0.2 when
  it is null or 0. (The double product is rounded to nearest, so this bound can lie
  above the exact product.)
\<close>

theorem C7_even_target_size:
  "(target_w ov W = Inr tw \<longrightarrow>
      even tw \<and>
      (\<exists>q. int_mul (or_default (ov_width ov) (float_lit (2 / 10))) W = Inr q \<and>
            tw \<le> q \<and> q - 1 \<le> tw)) \<and>
   (target_h ov H = Inr th \<longrightarrow>
      even th \<and>
      (\<exists>q. int_mul (or_default (ov_height ov) (float_lit (2 / 10))) H = Inr q \<and>
            th \<le> q \<and> q - 1 \<le> th)) \<and>
   (ov_width ov = Some r \<and> \<not> is_zero r \<longrightarrow>
      or_default (ov_width ov) (float_lit (2 / 10)) = r) \<and>
   (ov_height ov = Some s \<and> \<not> is_zero s \<longrightarrow>
      or_default (ov_height ov) (float_lit (2 / 10)) = s) \<and>
   (ov_type ov \<in> {''image'', ''video''} \<and> path_exists w (overlay_path w (ov_content ov)) \<and>
    overlay_step p w W H i ov g = Inr g' \<longrightarrow>
      (\<exists>a b pre post. target_w ov W = Inr a \<and> target_h ov H = Inr b \<and>
         filter_complex g' = pre @ ''scale='' @ show_int a @ '':'' @ show_int b @ post))"
proof (intro conjI impI)
  assume "target_w ov W = Inr tw"
  then obtain q where "int_mul (or_default (ov_width ov) (float_lit (2 / 10))) W = Inr q"
    "tw = even_down q"
    using target_w_Inr by blast
  then show "even tw"
    "\<exists>q. int_mul (or_default (ov_width ov) (float_lit (2 / 10))) W = Inr q \<and> tw \<le> q \<and> q - 1 \<le> tw"
    using even_down_props[of q] by auto
next
  assume "target_h ov H = Inr th"
  then obtain q where "int_mul (or_default (ov_height ov) (float_lit (2 / 10))) H = Inr q"
    "th = even_down q"
    using target_h_Inr by blast
  then show "even th"
    "\<exists>q. int_mul (or_default (ov_height ov) (float_lit (2 / 10))) H = Inr q \<and> th \<le> q \<and> q - 1 \<le> th"
    using even_down_props[of q] by auto
next
  assume "ov_width ov = Some r \<and> \<not> is_zero r"
  then show "or_default (ov_width ov) (float_lit (2 / 10)) = r"
    by (simp add: or_default_given)
next
  assume "ov_height ov = Some s \<and> \<not> is_zero s"
  then show "or_default (ov_height ov) (float_lit (2 / 10)) = s"
    by (simp add: or_default_given)
next
  assume a: "ov_type ov \<in> {''image'', ''video''} \<and> path_exists w (overlay_path w (ov_content ov)) \<and>
    overlay_step p w W H i ov g = Inr g'"
  then obtain x_px y_px a b where c: "int_mul (ov_x ov) W = Inr x_px" "int_mul (ov_y ov) H = Inr y_px"
    "target_w ov W = Inr a" "target_h ov H = Inr b"
    using overlay_step_asset_Inr[of ov w p W H i g g'] by blast
  let ?idx = "show_int (int (length (input_args g @ [''-i'', overlay_path w (ov_content ov)])) div 2 - 1)"
  let ?post = "(''[sc'' @ show_nat i @ '']'') @ '';'' @
            last_stream_label g @ (''[sc'' @ show_nat i @ '']'') @ ''overlay='' @
            show_int x_px @ '':'' @ show_int y_px @ '':'' @
            enable_between p ov @ (''[v'' @ show_nat (i + 1) @ '']'') @ '';''"
  have "filter_complex g' =
        (filter_complex g @ ''['' @ ?idx @ '':v]'') @ ''scale='' @ show_int a @ '':'' @
         show_int b @ ?post"
    using a overlay_step_asset[of ov w W x_px H y_px a b p i g] c by auto
  with c show "\<exists>a b pre post. target_w ov W = Inr a \<and> target_h ov H = Inr b \<and>
         filter_complex g' = pre @ ''scale='' @ show_int a @ '':'' @ show_int b @ post"
    by blast
qed

lemma third_val: "float_lit (3333333333333333 / 10 ^ 16) = Fin (6004799503160661 / 2 ^ 54)"
  by (simp add: float_eval)

text \<open>C7 on a width of 0.333 and a height of 0.5 of a 1920 by 1080 frame: 639 becomes 638.\<close>

theorem C7_even_target_size_witness:
  "target_w (OverlayMetadata_init None ''image'' ''logo.png'' (Fin 0) (Fin 5) (Fin 0) (Fin 0)
       (Some (Some (float_lit (333 / 1000)))) (Some (Some (Fin (1 / 2))))) 1920 = Inr 638 \<and>
   int_mul (float_lit (333 / 1000)) 1920 = Inr 639 \<and>
   target_h (OverlayMetadata_init None ''image'' ''logo.png'' (Fin 0) (Fin 5) (Fin 0) (Fin 0)
       (Some (Some (float_lit (333 / 1000)))) (Some (Some (Fin (1 / 2))))) 1080 = Inr 540 \<and>
   overlay_step ascii_py (example_world (\<lambda>_. True) (Exited [] 0)) 1920 1080 0
      (OverlayMetadata_init None ''image'' ''logo.png'' (Fin 0) (Fin 5) (Fin 0) (Fin 0)
         (Some (Some (float_lit (333 / 1000)))) (Some (Some (Fin (1 / 2)))))
      \<lparr> input_args = [''-i'', ''base.mp4''], filter_complex = [], last_stream_label = ''[0:v]'' \<rparr> =
     Inr \<lparr> input_args = [''-i'', ''base.mp4'', ''-i'', ''uploads/overlays/logo.png''],
           filter_complex =
             ''[1:v]scale=638:540[sc0];[0:v][sc0]overlay=0:0:enable='' @ [quote_chr] @
             ''between(t,0.0,5.0)'' @ [quote_chr] @ ''[v1];'',
           last_stream_label = ''[v1]'' \<rparr>"
proof -
  let ?ov = "OverlayMetadata_init None ''image'' ''logo.png'' (Fin 0) (Fin 5) (Fin 0) (Fin 0)
       (Some (Some (float_lit (333 / 1000)))) (Some (Some (Fin (1 / 2))))"
  let ?w = "example_world (\<lambda>_. True) (Exited [] 0)"
  let ?g0 = "\<lparr> input_args = [''-i'', ''base.mp4''], filter_complex = [], last_stream_label = ''[0:v]'' \<rparr>"
  have f: "ov_type ?ov \<in> {''image'', ''video''}" "ov_content ?ov = ''logo.png''"
    "ov_x ?ov = Fin 0" "ov_y ?ov = Fin 0" "ov_start_time ?ov = Fin 0" "ov_end_time ?ov = Fin 5"
    "ov_width ?ov = Some (float_lit (333 / 1000))" "ov_height ?ov = Some (Fin (1 / 2))"
    by (simp_all add: OverlayMetadata_init_def)
  have tw: "target_w ?ov 1920 = Inr 638" and th: "target_h ?ov 1080 = Inr 540"
    by (simp_all add: target_w_def target_h_def f or_default_def lit_nonzero int_mul_vals
        even_down_def)
  have e: "path_exists ?w q" "overlay_path ?w c = ''uploads/overlays/'' @ c" for q c
    by (simp_all add: example_world_def)
  have x: "int_mul (ov_x ?ov) 1920 = Inr 0" and y: "int_mul (ov_y ?ov) 1080 = Inr 0"
    by (simp_all add: f int_mul_vals)
  have st: "overlay_step ascii_py ?w 1920 1080 0 ?ov ?g0 =
     Inr \<lparr> input_args = [''-i'', ''base.mp4'', ''-i'', ''uploads/overlays/logo.png''],
           filter_complex =
             ''[1:v]scale=638:540[sc0];[0:v][sc0]overlay=0:0:enable='' @ [quote_chr] @
             ''between(t,0.0,5.0)'' @ [quote_chr] @ ''[v1];'',
           last_stream_label = ''[v1]'' \<rparr>"
    by (simp add: overlay_step_asset[OF f(1) e(1) x y tw th] f e show_vals enable_between_def
        ascii_py_def decimal_vals)
  show ?thesis
    using C7_even_target_size[of ?ov 1920 638 1080 540 "float_lit (333 / 1000)" "Fin (1 / 2)"]
      tw th st int_mul_vals(8)
    by simp
qed

text \<open>
  C7 as stated fails twice. For a width of 0, which is in [0,1], the fallback 0.2 gives a
  target width of 384, above the truncated product 0. For a width of 0.3333333333333333
  the double product with 1920 is 640.0, so the target width is 640, above the truncated
  exact product 639.
\<close>

theorem C7_target_size_counterexample:
  "target_w (OverlayMetadata_init None ''image'' ''logo.png'' (Fin 0) (Fin 5) (Fin 0) (Fin 0)
       (Some (Some (Fin 0))) (Some (Some (Fin (1 / 2))))) 1920 = Inr 384 \<and>
   trunc (0 * 1920) = 0 \<and>
   target_w (OverlayMetadata_init None ''image'' ''logo.png'' (Fin 0) (Fin 5) (Fin 0) (Fin 0)
       (Some (Some (float_lit (3333333333333333 / 10 ^ 16)))) (Some (Some (Fin (1 / 2))))) 1920 =
     Inr 640 \<and>
   trunc (fval (float_lit (3333333333333333 / 10 ^ 16)) * 1920) = 639"
proof -
  have a: "trunc (fval (float_lit (3333333333333333 / 10 ^ 16)) * 1920) = 639"
    unfolding third_val by (simp add: trunc_def)
  have c: "target_w (OverlayMetadata_init None ''image'' ''logo.png'' (Fin 0) (Fin 5) (Fin 0) (Fin 0)
       (Some (Some (float_lit (3333333333333333 / 10 ^ 16)))) (Some (Some (Fin (1 / 2))))) 1920 =
     Inr 640"
    by (simp add: target_w_def OverlayMetadata_init_def or_default_def float_eval even_down_def)
  have d: "target_w (OverlayMetadata_init None ''image'' ''logo.png'' (Fin 0) (Fin 5) (Fin 0) (Fin 0)
       (Some (Some (Fin 0))) (Some (Some (Fin (1 / 2))))) 1920 = Inr 384"
    by (simp add: target_w_def OverlayMetadata_init_def or_default_def int_mul_vals
        even_down_def)
  have e: "trunc (0 * 1920) = 0"
    by (simp add: trunc_def)
  show ?thesis
    by (intro conjI d e c a)
qed

subsection \<open>C8: an overlay whose asset is missing\<close>

lemma and_then_assoc:
  "and_then (and_then r f) h = and_then r (\<lambda>x. and_then (f x) h)"
  by (cases r) simp_all







subsection \<open>C9: escaping of the text content\<close>

lemma bare_colons_plain:
  "c \<noteq> backslash_chr \<Longrightarrow> bare_colons (c # cs) = (if c = CHR '':'' then 1 else 0) + bare_colons cs"
  by (cases cs) simp_all

lemma safe_text_no_bare_colon:
  "backslash_chr \<notin> set c \<Longrightarrow> bare_colons (safe_text c) = 0"
proof (induction c)
  case Nil
  then show ?case by (simp add: safe_text_Nil)
next
  case (Cons a c)
  then have ih: "bare_colons (safe_text c) = 0" and a: "a \<noteq> backslash_chr" by auto
  show ?case
  proof (cases "a = quote_chr")
    case True
    have "bare_colons (quote_chr # backslash_chr # quote_chr # quote_chr # safe_text c) =
          bare_colons (quote_chr # safe_text c)"
      by simp
    also have "\<dots> = 0" using ih by (simp add: bare_colons_plain)
    finally show ?thesis using True by (simp add: safe_text_Cons)
  next
    case False
    show ?thesis
    proof (cases "a = CHR '':''")
      case True
      then show ?thesis using ih by (simp add: safe_text_Cons)
    next
      case False
      with \<open>a \<noteq> quote_chr\<close> a ih show ?thesis
        by (simp add: safe_text_Cons bare_colons_plain)
    qed
  qed
qed

text \<open>
  C9 does not hold of \<open>safe_text\<close>: it escapes the quote and the colon and leaves a
  backslash of the content as it is. For the content \<open>\:\<close> (a backslash, a colon) the
  emitted text is \<open>\\:\<close>, where the backslash that was added is itself taken by the
  backslash of the content, and the colon stands bare. (For a content with no backslash
  every colon is escaped: \<open>safe_text_no_bare_colon\<close>.)
\<close>

theorem C9_backslash_colon_unescaped:
  "safe_text [backslash_chr, CHR '':''] = [backslash_chr, backslash_chr, CHR '':''] \<and>
   bare_colons (safe_text [backslash_chr, CHR '':'']) = 1 \<and>
   build_filter ascii_py (example_world (\<lambda>_. True) (Exited [] 0)) ''base.mp4'' 1920 1080
      [OverlayMetadata_init None ''text'' [backslash_chr, CHR '':''] (Fin 1) (Fin 3)
         (Fin (1/2)) (Fin (1/2)) None None] =
    Inr \<lparr> input_args = [''-i'', ''base.mp4''],
          filter_complex =
            ''[0:v]drawtext=text='' @ [quote_chr] @ [backslash_chr, backslash_chr, CHR '':''] @
            [quote_chr] @ '':fontcolor=white:fontsize=216:x=960:y=540:enable='' @ [quote_chr] @
            ''between(t,1.0,3.0)'' @ [quote_chr] @ ''[v1]'',
          last_stream_label = ''[v1]'' \<rparr>"
proof -
  let ?w = "example_world (\<lambda>_. True) (Exited [] 0)"
  let ?txt = "OverlayMetadata_init None ''text'' [backslash_chr, CHR '':''] (Fin 1) (Fin 3)
         (Fin (1/2)) (Fin (1/2)) None None"
  let ?g0 = "\<lparr> input_args = [''-i'', ''base.mp4''], filter_complex = [], last_stream_label = ''[0:v]'' \<rparr>"
  have st: "safe_text [backslash_chr, CHR '':''] = [backslash_chr, backslash_chr, CHR '':'']"
    by (simp add: safe_text_def replace_chr_def)
  have fs: "ov_content ?txt = [backslash_chr, CHR '':'']" "ov_start_time ?txt = Fin 1"
    "ov_end_time ?txt = Fin 3"
    by (simp_all add: OverlayMetadata_init_def)
  have t: "ov_type ?txt = ''text''" "int_mul (ov_x ?txt) 1920 = Inr 960"
    "int_mul (ov_y ?txt) 1080 = Inr 540" "font_size ?txt 1080 = Inr 216"
    by (simp_all add: OverlayMetadata_init_def font_size_def or_default_def int_mul_vals
        lit_nonzero)
  have step: "overlay_loop ascii_py ?w 1920 1080 0 [?txt] ?g0 =
     Inr \<lparr> input_args = [''-i'', ''base.mp4''],
       filter_complex = (''[0:v]drawtext=text='' @ [quote_chr] @
         [backslash_chr, backslash_chr, CHR '':''] @ [quote_chr] @
         '':fontcolor=white:fontsize=216:x=960:y=540:enable='' @ [quote_chr] @
         ''between(t,1.0,3.0)'' @ [quote_chr] @ ''[v1'') @ '']'' @ '';'',
       last_stream_label = ''[v1]'' \<rparr>"
    by (simp add: overlay_step_text[OF t] fs show_vals st enable_between_def
        ascii_py_def decimal_vals)
  have b: "build_filter ascii_py ?w ''base.mp4'' 1920 1080 [?txt] =
    Inr \<lparr> input_args = [''-i'', ''base.mp4''],
          filter_complex =
            ''[0:v]drawtext=text='' @ [quote_chr] @ [backslash_chr, backslash_chr, CHR '':''] @
            [quote_chr] @ '':fontcolor=white:fontsize=216:x=960:y=540:enable='' @ [quote_chr] @
            ''between(t,1.0,3.0)'' @ [quote_chr] @ ''[v1]'',
          last_stream_label = ''[v1]'' \<rparr>"
    by (simp only: build_filter_def step and_then_simps Let_def graph.simps rstrip_label) simp
  show ?thesis
    using st b by simp
qed

subsection \<open>C2: progress from the diagnostic stream\<close>

lemma nbits_bound: "n < 2 ^ k \<Longrightarrow> nbits n \<le> k"
proof (induction k arbitrary: n)
  case 0
  then show ?case by (simp add: nbits.simps)
next
  case (Suc k)
  have "n div 2 < 2 ^ k" using Suc.prems by simp
  then have "nbits (n div 2) \<le> k" by (rule Suc.IH)
  then show ?case by (subst nbits.simps) simp
qed

lemma nbits_pos: "0 < n \<Longrightarrow> 0 < nbits n"
  by (subst nbits.simps) simp

lemma round_half_even_of_int: "round_half_even (of_int m) = m"
  by (simp add: round_half_even_def)

lemma rd_nat:
  assumes "0 < n" "n < 2 ^ 53"
  shows "rd (real n) = real n"
proof -
  have b: "nbits n \<le> 53" using assms(2) by (rule nbits_bound)
  have q: "0 < nbits n" using assms(1) by (rule nbits_pos)
  define k where "k = 53 - nbits n"
  have il: "ilog2 (real n) = int (nbits n) - 1"
    using assms(1) by (simp add: ilog2_def)
  have u: "pow2 (max (ilog2 \<bar>real n\<bar>) (- 1022) - 52) = 1 / 2 ^ k"
  proof (cases "nbits n = 53")
    case True
    then show ?thesis by (simp add: il pow2_def k_def)
  next
    case False
    with b have lt: "nbits n < 53" by simp
    then have "nat (52 - (int (nbits n) - 1)) = k" by (simp add: k_def)
    then show ?thesis using lt q by (simp add: il pow2_def)
  qed
  have "real n / (1 / 2 ^ k) = of_int (int (n * 2 ^ k))" by simp
  then have r: "round_half_even (real n / (1 / 2 ^ k)) = int (n * 2 ^ k)"
    by (simp only: round_half_even_of_int)
  have "rd (real n) = of_int (int (n * 2 ^ k)) * (1 / 2 ^ k)"
    using assms(1) by (simp only: rd_def u Let_def r) simp
  then show ?thesis by simp
qed

lemma int_to_float_small:
  assumes "0 \<le> n" "n < 2 ^ 53"
  shows "int_to_float n = Inr (Fin (of_int n))"
proof (cases "n = 0")
  case True
  then show ?thesis by (simp add: int_to_float_def rd_def)
next
  case False
  with assms have "0 < nat n" "nat n < 2 ^ 53"
    by (simp_all add: nat_less_iff)
  then have "rd (real (nat n)) = real (nat n)" by (rule rd_nat)
  then have r: "rd (of_int n) = of_int n" using assms(1) by simp
  have "\<bar>of_int n :: real\<bar> < 2 ^ 53" using assms by simp
  also have "(2::real) ^ 53 \<le> 2 ^ 1024" by (rule power_increasing) simp_all
  finally have "\<not> 2 ^ 1024 \<le> \<bar>of_int n :: real\<bar>" by simp
  then show ?thesis by (simp add: int_to_float_def r)
qed

lemma is_digit_not_colon: "is_digit c \<Longrightarrow> c \<noteq> CHR '':''"
  by (auto simp: is_digit_def)

lemma digit_val_le: "is_digit c \<Longrightarrow> digit_val c \<le> 9"
  by (auto simp: is_digit_def digit_val_def)

lemma two_digits_le: "is_digit a \<Longrightarrow> is_digit b \<Longrightarrow> two_digits a b \<le> 99"
  using digit_val_le[of a] digit_val_le[of b] by (simp add: two_digits_def)

lemma is_time_marker_shape:
  assumes "is_time_marker g"
  obtains h1 h2 m1 m2 s1 s2 f1 f2 where
    "g = [h1, h2, CHR '':'', m1, m2, CHR '':'', s1, s2, CHR ''.'', f1, f2]"
    "is_digit h1" "is_digit h2" "is_digit m1" "is_digit m2"
    "is_digit s1" "is_digit s2" "is_digit f1" "is_digit f2"
  using assms by (auto elim!: is_time_marker.elims)

lemma marker_at_Suc: "marker_at (c # cs) (Suc k) g = marker_at cs k g"
  unfolding marker_at_def by (simp only: add_Suc drop_Suc_Cons)

lemma marker_at_0:
  "marker_at line 0 g =
   (take 5 line = ''time='' \<and> take 11 (drop 5 line) = g \<and> is_time_marker g)"
  by (simp add: marker_at_def)

lemma time_search_Some:
  "time_search line = Some g \<Longrightarrow>
   \<exists>k. marker_at line k g \<and> (\<forall>k'<k. \<forall>g2. \<not> marker_at line k' g2)"
proof (induction line)
  case Nil
  then show ?case by simp
next
  case (Cons c cs)
  show ?case
  proof (cases "take 5 (c # cs) = ''time='' \<and> is_time_marker (take 11 (drop 5 (c # cs)))")
    case True
    with Cons.prems have "marker_at (c # cs) 0 g"
      by (auto simp: marker_at_0)
    then show ?thesis by blast
  next
    case False
    with Cons.prems have "time_search cs = Some g" by (simp split: if_splits)
    then obtain k where k: "marker_at cs k g" "\<forall>k'<k. \<forall>g2. \<not> marker_at cs k' g2"
      using Cons.IH by blast
    have n0: "\<not> marker_at (c # cs) 0 g2" for g2
      using False by (auto simp: marker_at_0)
    have "\<not> marker_at (c # cs) k' g2" if "k' < Suc k" for k' g2
    proof (cases k')
      case 0
      then show ?thesis using n0 by simp
    next
      case (Suc k'')
      with that k(2) show ?thesis by (simp add: marker_at_Suc)
    qed
    moreover have "marker_at (c # cs) (Suc k) g" using k(1) by (simp add: marker_at_Suc)
    ultimately show ?thesis by blast
  qed
qed

lemma time_search_None: "time_search line = None \<Longrightarrow> \<not> marker_at line k g"
proof (induction line arbitrary: k)
  case Nil
  then show ?case by (simp add: marker_at_def)
next
  case (Cons c cs)
  then have f: "\<not> (take 5 (c # cs) = ''time='' \<and> is_time_marker (take 11 (drop 5 (c # cs))))"
    and n: "time_search cs = None"
    by (simp_all split: if_splits)
  show ?case
  proof (cases k)
    case 0
    then show ?thesis using f by (auto simp: marker_at_0)
  next
    case (Suc k')
    then show ?thesis using Cons.IH[OF n] by (simp add: marker_at_Suc)
  qed
qed

lemma time_search_marker: "time_search line = Some g \<Longrightarrow> is_time_marker g"
  using time_search_Some[of line g] by (auto simp: marker_at_def)

lemma split_on_nonempty: "split_on c s \<noteq> []"
  by (induction s) (auto split: list.splits)

lemma length_split_on: "length (split_on c s) = Suc (count_list s c)"
  using split_on_nonempty by (induction s) (auto split: list.splits)

lemma split_on_marker:
  assumes "is_digit h1" "is_digit h2" "is_digit m1" "is_digit m2"
    "is_digit s1" "is_digit s2" "is_digit f1" "is_digit f2"
  shows "split_on CHR '':'' [h1, h2, CHR '':'', m1, m2, CHR '':'', s1, s2, CHR ''.'', f1, f2] =
     [[h1, h2], [m1, m2], [s1, s2, CHR ''.'', f1, f2]]"
  using assms by (simp add: is_digit_not_colon)

lemma time_str_to_sec_marker:
  assumes "reads_marker p" "is_time_marker g"
  shows "time_str_to_sec p g = marker_seconds g"
  using assms(2)
proof (rule is_time_marker_shape)
  fix h1 h2 m1 m2 s1 s2 f1 f2
  assume g: "g = [h1, h2, CHR '':'', m1, m2, CHR '':'', s1, s2, CHR ''.'', f1, f2]"
    and d: "is_digit h1" "is_digit h2" "is_digit m1" "is_digit m2"
    "is_digit s1" "is_digit s2" "is_digit f1" "is_digit f2"
  have i1: "int_str p [h1, h2] = Inr (int (two_digits h1 h2))"
    and i2: "int_str p [m1, m2] = Inr (int (two_digits m1 m2))"
    and f: "float_str p [s1, s2, CHR ''.'', f1, f2] =
             Some (float_lit (real (two_digits s1 s2) + real (two_digits f1 f2) / 100))"
    using assms(1) d unfolding reads_marker_def by blast+
  let ?n = "int (two_digits h1 h2) * 3600 + int (two_digits m1 m2) * 60"
  have "?n \<le> 99 * 3600 + 99 * 60"
    using two_digits_le[OF d(1,2)] two_digits_le[OF d(3,4)] by simp
  then have "?n < 2 ^ 53" by simp
  moreover have "0 \<le> ?n" by simp
  ultimately have c: "int_to_float ?n = Inr (Fin (of_int ?n))"
    by (rule int_to_float_small[rotated])
  have e: "(of_int ?n :: real) = real (two_digits h1 h2 * 3600 + two_digits m1 m2 * 60)"
    by simp
  show ?thesis
    unfolding g time_str_to_sec_def split_on_marker[OF d]
    by (simp add: i1 i2 f c e del: of_int_add of_int_mult of_nat_add of_nat_mult)
qed

lemma line_progress_marker:
  assumes "reads_marker p" "gt_zero d" "time_search line = Some g"
  shows "line_progress p d line =
     and_then (fdiv (marker_seconds g) d) (\<lambda>q.
     and_then (py_int (fmul q (Fin 100))) (\<lambda>pc. Inr (Some (min pc 99))))"
proof -
  have m: "is_time_marker g"
    using assms(3) by (rule time_search_marker)
  show ?thesis
    using assms(2,3)
    by (simp add: line_progress_def time_str_to_sec_marker[OF assms(1) m] percent_of_def
        and_then_assoc)
qed

lemma line_progress_le: "line_progress p d line = Inr (Some pc) \<Longrightarrow> pc \<le> 99"
  by (auto simp: line_progress_def Let_def and_then_def split: option.splits if_splits sum.splits)

lemma line_progress_no_duration: "\<not> gt_zero d \<Longrightarrow> line_progress p d line = Inr None"
  by (simp add: line_progress_def split: option.splits)

lemma malformed_zero: "malformed p ts \<Longrightarrow> time_str_to_sec p ts = Fin 0"
proof -
  assume a: "malformed p ts"
  show ?thesis
  proof (cases "count_list ts CHR '':'' = 2")
    case False
    then have "length (split_on CHR '':'' ts) \<noteq> 3"
      by (simp add: length_split_on)
    then show ?thesis
      by (auto simp: time_str_to_sec_def split: list.splits)
  next
    case True
    then have "length (split_on CHR '':'' ts) = 3"
      by (simp add: length_split_on)
    then obtain h m s where sp: "split_on CHR '':'' ts = [h, m, s]"
      by (auto simp: length_Suc_conv numeral_3_eq_3)
    with a True have "isl (int_str p h) \<or> isl (int_str p m) \<or> float_str p s = None"
      by (simp add: malformed_def)
    then show ?thesis
      by (auto simp: time_str_to_sec_def sp isl_def split: sum.splits option.splits)
  qed
qed

lemma reads_marker_ascii: "reads_marker ascii_py"
  unfolding reads_marker_def ascii_py_def
  apply (intro conjI allI impI)
   apply (auto simp: ascii_int_def digits_val_def two_digits_def is_digit_def)[1]
  apply (clarsimp simp: ascii_float_def digits_val_def two_digits_def)
  apply (auto simp: is_digit_def)
  done

text \<open>
  C2, as the code has it. The search gives the marker \<open>HH:MM:SS.ff\<close> that follows the
  leftmost \<open>time=\<close> with a marker after it, and nothing when the line has none. For
  that marker and a total duration above 0 the progress saved is
  \<open>int((sec / d) * 100)\<close> clamped to at most 99, where \<open>sec\<close> is
  \<open>h*3600 + m*60 + s\<close> and every operation is the double-precision one (each result
  is rounded to the nearest double, so the value can be one below the exact floor; a
  quotient that overflows raises and ends the task); this holds for any builtins that
  read the two-digit fields of a marker as Python does. No progress above 99 is ever
  saved, and none at all when the duration is not above 0. A malformed time string (not
  exactly two colons, or a field that \<open>int\<close> or \<open>float\<close> refuses) converts to 0.0; the
  conversion is a total function, it raises nothing.
\<close>

theorem C2_progress_extractor:
  "(time_search line = Some g \<longrightarrow>
      (\<exists>k. marker_at line k g \<and> (\<forall>k'<k. \<forall>g2. \<not> marker_at line k' g2))) \<and>
   (time_search line = None \<longrightarrow> (\<forall>k g2. \<not> marker_at line k g2)) \<and>
   (reads_marker p \<and> gt_zero d \<and> time_search line = Some g \<longrightarrow>
      time_str_to_sec p g = marker_seconds g \<and>
      line_progress p d line =
        and_then (fdiv (marker_seconds g) d) (\<lambda>q.
        and_then (py_int (fmul q (Fin 100))) (\<lambda>pc. Inr (Some (min pc 99))))) \<and>
   (line_progress p d line = Inr (Some pc) \<longrightarrow> pc \<le> 99) \<and>
   (\<not> gt_zero d \<longrightarrow> line_progress p d line = Inr None) \<and>
   (malformed p ts \<longrightarrow> time_str_to_sec p ts = Fin 0)"
  using time_search_Some[of line g] time_search_None[of line] line_progress_marker[of p d line g]
    time_str_to_sec_marker[of p g] time_search_marker[of line g] line_progress_le[of p d line pc]
    line_progress_no_duration[of d p line] malformed_zero[of p ts]
  by blast

text \<open>
  C2 on the spec's own lines, for a duration of 100 seconds: \<open>00:00:50.00\<close> reports 50,
  \<open>00:01:40.00\<close> reports 99, and the malformed \<open>00:5x:10.00\<close> converts to 0.
\<close>

theorem C2_progress_extractor_witness:
  "line_progress ascii_py (Fin 100) ''frame=  120 fps= 30 time=00:00:50.00 bitrate=1000kbits/s'' =
     Inr (Some 50) \<and>
   line_progress ascii_py (Fin 100) ''time=00:01:40.00'' = Inr (Some 99) \<and>
   time_str_to_sec ascii_py ''00:5x:10.00'' = Fin 0"
proof -
  have s1: "time_search ''frame=  120 fps= 30 time=00:00:50.00 bitrate=1000kbits/s'' =
      Some ''00:00:50.00''"
    by (simp add: is_digit_def)
  have s2: "time_search ''time=00:01:40.00'' = Some ''00:01:40.00''"
    by (simp add: is_digit_def)
  have m: "malformed ascii_py ''00:5x:10.00''"
    by (simp add: malformed_def ascii_py_def ascii_int_def is_digit_def)
  have v1: "and_then (fdiv (marker_seconds ''00:00:50.00'') (Fin 100)) (\<lambda>q.
        and_then (py_int (fmul q (Fin 100))) (\<lambda>pc. Inr (Some (min pc 99)))) = Inr (Some 50)"
    by (simp add: two_digits_def digit_val_def float_eval)
  have v2: "and_then (fdiv (marker_seconds ''00:01:40.00'') (Fin 100)) (\<lambda>q.
        and_then (py_int (fmul q (Fin 100))) (\<lambda>pc. Inr (Some (min pc 99)))) = Inr (Some 99)"
    by (simp add: two_digits_def digit_val_def float_eval)
  have g: "gt_zero (Fin 100)" by simp
  show ?thesis
    using C2_progress_extractor[of
        "''frame=  120 fps= 30 time=00:00:50.00 bitrate=1000kbits/s''" "''00:00:50.00''"
        ascii_py "Fin 100" 50 "''00:5x:10.00''"]
      C2_progress_extractor[of "''time=00:01:40.00''" "''00:01:40.00''"
        ascii_py "Fin 100" 99 "''00:5x:10.00''"]
      reads_marker_ascii s1 s2 m g
    by (simp only: v1 v2)
qed

text \<open>
  C2 as stated, with the floor of the exact quotient, fails: for \<open>00:00:29.00\<close> of 100
  seconds the double \<open>29.0 / 100.0 * 100\<close> is 28.999999999999996 and the progress saved
  is 28, where the exact formula gives 29.
\<close>

theorem C2_double_rounding_counterexample:
  "line_progress ascii_py (Fin 100) ''time=00:00:29.00'' = Inr (Some 28) \<and>
   marker_exact ''00:00:29.00'' = 29 \<and>
   min \<lfloor>marker_exact ''00:00:29.00'' / 100 * 100\<rfloor> 99 = (29::int)"
  by (simp add: example_lines two_digits_def digit_val_def)

end
